theory Spec2Isabelle
  imports Main "HOL-Library.Char_ord" "HOL-Library.List_Lexorder"
begin

unbundle bit_operations_syntax

section \<open>Data model\<close>

text \<open>
  One element of an attribute set is a Go map with a single entry
  \<^verbatim>\<open>name: value\<close> (the schema declares MinItems = MaxItems = 1), so every
  \<^verbatim>\<open>for k, v := range item\<close> loop of the source runs its body once, on that pair.
\<close>

type_synonym attr = "string \<times> string"

text \<open>
  Errors returned by the directory client: a \<^verbatim>\<open>*ldap.Error\<close> with its result code,
  or an error of another dynamic type (for which the type assertion
  \<^verbatim>\<open>err.(*ldap.Error)\<close> fails).
\<close>

datatype error = LdapError nat | OtherError

subsection \<open>The set type of the plugin SDK (schema.Set)\<close>

text \<open>
  A \<^verbatim>\<open>schema.Set\<close> is a Go map from the decimal rendering of an item's hash code
  to the item. The hash function is the field \<^verbatim>\<open>F\<close> of the set, a parameter of
  the operations that hash; every set of the provider is built with
  \<^verbatim>\<open>F: attributeHash\<close>. The map is an association list
  with distinct keys; the order of the association list carries no meaning,
  \<^verbatim>\<open>List()\<close> returns the items sorted by their key strings.
\<close>

type_synonym sset = "(string \<times> attr) list"

definition digit :: "nat \<Rightarrow> char" where
  "digit d = ''0123456789'' ! d"

fun Itoa_nat :: "nat \<Rightarrow> string" where
  "Itoa_nat n = (if n < 10 then [digit n] else Itoa_nat (n div 10) @ [digit (n mod 10)])"

declare Itoa_nat.simps [simp del]

definition Itoa :: "int \<Rightarrow> string" where
  "Itoa i = (if i < 0 then CHR ''-'' # Itoa_nat (nat (- i)) else Itoa_nat (nat i))"

definition Set_hash :: "(attr \<Rightarrow> int) \<Rightarrow> attr \<Rightarrow> string" where
  "Set_hash F item = (let code = F item in Itoa (if code < 0 then - code else code))"

definition Set_Add :: "(attr \<Rightarrow> int) \<Rightarrow> attr \<Rightarrow> sset \<Rightarrow> sset" where
  "Set_Add F item m =
     (let code = Set_hash F item
      in if map_of m code = None then m @ [(code, item)] else m)"

definition Set_Contains :: "(attr \<Rightarrow> int) \<Rightarrow> sset \<Rightarrow> attr \<Rightarrow> bool" where
  "Set_Contains F m item = (map_of m (Set_hash F item) \<noteq> None)"

definition Set_List :: "sset \<Rightarrow> attr list" where
  "Set_List m = map snd (sort_key fst m)"

definition Set_Len :: "sset \<Rightarrow> nat" where
  "Set_Len m = length m"

definition Set_Difference :: "sset \<Rightarrow> sset \<Rightarrow> sset" where
  "Set_Difference m other = filter (\<lambda>(k, v). map_of other k = None) m"

definition Set_Intersection :: "sset \<Rightarrow> sset \<Rightarrow> sset" where
  "Set_Intersection m other = filter (\<lambda>(k, v). map_of other k \<noteq> None) m"

definition Set_Union :: "sset \<Rightarrow> sset \<Rightarrow> sset" where
  "Set_Union m other = filter (\<lambda>(k, v). map_of other k = None) m @ other"

text \<open>
  \<^verbatim>\<open>Equal\<close> (used by \<^verbatim>\<open>HasChange\<close>) compares the two maps as
  \<^verbatim>\<open>reflect.DeepEqual\<close> does: the same number of keys, and every key of the one
  bound to the same item in the other.
\<close>

definition Set_Equal :: "sset \<Rightarrow> sset \<Rightarrow> bool" where
  "Set_Equal m other =
     (length m = length other \<and> list_all (\<lambda>(k, v). map_of other k = Some v) m)"

text \<open>A set literal: \<^verbatim>\<open>Add\<close> of every item to a fresh set, in order.\<close>

definition Set_of :: "(attr \<Rightarrow> int) \<Rightarrow> attr list \<Rightarrow> sset" where
  "Set_of F items = fold (Set_Add F) items []"

subsection \<open>The hash of an attribute (attributeHash)\<close>

text \<open>
  \<^verbatim>\<open>crc32.ChecksumIEEE\<close>: the CRC-32 of IEEE 802.3 (reflected polynomial
  \<^verbatim>\<open>0xEDB88320\<close>, initial value and final complement \<^verbatim>\<open>0xFFFFFFFF\<close>), bit by bit.
\<close>

definition crc32_shift :: "nat \<Rightarrow> nat" where
  "crc32_shift c = (if odd c then (c div 2) XOR 0xEDB88320 else c div 2)"

definition crc32_update :: "char \<Rightarrow> nat \<Rightarrow> nat" where
  "crc32_update b c =
     crc32_shift (crc32_shift (crc32_shift (crc32_shift
       (crc32_shift (crc32_shift (crc32_shift (crc32_shift (c XOR of_char b))))))))"

definition ChecksumIEEE :: "string \<Rightarrow> nat" where
  "ChecksumIEEE bs = fold crc32_update bs 0xFFFFFFFF XOR 0xFFFFFFFF"

text \<open>
  The package unicode/utf8. \<^verbatim>\<open>DecodeRune\<close> (and \<^verbatim>\<open>DecodeRuneInString\<close>) returns
  the first rune of a byte string with its width in bytes; for a byte sequence that is
  not well-formed UTF-8 it returns \<^verbatim>\<open>RuneError\<close> with width 1. The masks and
  shifts of the source are written as remainders and products. \<^verbatim>\<open>EncodeRune\<close>
  writes the bytes of a rune. \<open>uint8\<close> is Go's conversion to a byte.
\<close>

definition RuneError :: nat where
  "RuneError = 0xFFFD"

definition uint8 :: "nat \<Rightarrow> char" where
  "uint8 n = Char (odd n) (odd (n div 2)) (odd (n div 4)) (odd (n div 8))
                  (odd (n div 16)) (odd (n div 32)) (odd (n div 64)) (odd (n div 128))"

fun DecodeRune :: "string \<Rightarrow> nat \<times> nat" where
  "DecodeRune [] = (RuneError, 0)"
| "DecodeRune (c # p) =
     (let p0 = (of_char c :: nat)
      in if p0 < 0x80 then (p0, 1)
         else if p0 < 0xC2 \<or> 0xF5 \<le> p0 then (RuneError, 1)
         else
           (let sz = (if p0 < 0xE0 then 2 else if p0 < 0xF0 then 3 else 4 :: nat);
                lo = (if p0 = 0xE0 then 0xA0 else if p0 = 0xF0 then 0x90 else 0x80 :: nat);
                hi = (if p0 = 0xED then 0x9F else if p0 = 0xF4 then 0x8F else 0xBF :: nat)
            in if length (c # p) < sz then (RuneError, 1)
               else
                 (let b1 = (of_char (p ! 0) :: nat)
                  in if b1 < lo \<or> hi < b1 then (RuneError, 1)
                     else if sz \<le> 2 then ((p0 mod 32) * 64 + b1 mod 64, 2)
                     else
                       (let b2 = (of_char (p ! 1) :: nat)
                        in if b2 < 0x80 \<or> 0xBF < b2 then (RuneError, 1)
                           else if sz \<le> 3
                                then ((p0 mod 16) * 4096 + (b1 mod 64) * 64 + b2 mod 64, 3)
                                else
                                  (let b3 = (of_char (p ! 2) :: nat)
                                   in if b3 < 0x80 \<or> 0xBF < b3 then (RuneError, 1)
                                      else ((p0 mod 8) * 262144 + (b1 mod 64) * 4096
                                              + (b2 mod 64) * 64 + b3 mod 64, 4))))))"

definition ValidRune :: "nat \<Rightarrow> bool" where
  "ValidRune r = (r < 0xD800 \<or> (0xDFFF < r \<and> r \<le> 0x10FFFF))"

definition EncodeRune :: "nat \<Rightarrow> string" where
  "EncodeRune r =
     (if r \<le> 0x7F then [uint8 r]
      else if r \<le> 0x7FF then [uint8 (0xC0 + r div 64), uint8 (0x80 + r mod 64)]
      else if r > 0x10FFFF \<or> (0xD800 \<le> r \<and> r \<le> 0xDFFF) then [CHR 0xEF, CHR 0xBF, CHR 0xBD]
      else if r \<le> 0xFFFF
           then [uint8 (0xE0 + r div 4096), uint8 (0x80 + (r div 64) mod 64), uint8 (0x80 + r mod 64)]
           else [uint8 (0xF0 + r div 262144), uint8 (0x80 + (r div 4096) mod 64),
                 uint8 (0x80 + (r div 64) mod 64), uint8 (0x80 + r mod 64)])"

text \<open>
  The verb \<^verbatim>\<open>%q\<close> of \<^verbatim>\<open>fmt.Sprintf\<close> (\<^verbatim>\<open>strconv.AppendQuote\<close>): the string in
  double quotes, rune by rune. A byte that starts no well-formed UTF-8 sequence is
  written as a backslash, the letter x and its two hexadecimal digits; the quote and
  the backslash get a backslash; a printable rune is copied; a control character has
  its letter or the form with x; any other rune is written with the letter u and
  four digits, or U and eight. \<^verbatim>\<open>strconv.IsPrint\<close> decides the runes up to
  \<^verbatim>\<open>0xFF\<close> by comparisons and the others by tables of the Unicode standard; those
  tables are the parameter \<open>printable\<close>.
\<close>

definition hexDigit :: "nat \<Rightarrow> char" where
  "hexDigit d = ''0123456789abcdef'' ! d"

definition IsPrint :: "(nat \<Rightarrow> bool) \<Rightarrow> nat \<Rightarrow> bool" where
  "IsPrint printable r =
     (if r \<le> 0xFF
      then (if 0x20 \<le> r \<and> r \<le> 0x7E then True
            else if 0xA1 \<le> r \<and> r \<le> 0xFF then r \<noteq> 0xAD
            else False)
      else printable r)"

definition appendEscapedRune :: "(nat \<Rightarrow> bool) \<Rightarrow> nat \<Rightarrow> string" where
  "appendEscapedRune printable r =
     (if r = 0x22 \<or> r = 0x5C then [CHR 0x5C, uint8 r]
      else if IsPrint printable r then EncodeRune r
      else if r = 7 then [CHR 0x5C, CHR ''a'']
      else if r = 8 then [CHR 0x5C, CHR ''b'']
      else if r = 12 then [CHR 0x5C, CHR ''f'']
      else if r = 10 then [CHR 0x5C, CHR ''n'']
      else if r = 13 then [CHR 0x5C, CHR ''r'']
      else if r = 9 then [CHR 0x5C, CHR ''t'']
      else if r = 11 then [CHR 0x5C, CHR ''v'']
      else if r < 0x20 \<or> r = 0x7F
           then [CHR 0x5C, CHR ''x'', hexDigit (r div 16), hexDigit (r mod 16)]
      else if \<not> ValidRune r then [CHR 0x5C, CHR ''u'', CHR ''f'', CHR ''f'', CHR ''f'', CHR ''d'']
      else if r < 0x10000
           then [CHR 0x5C, CHR ''u''] @ map (\<lambda>s. hexDigit ((r div 2 ^ s) mod 16)) [12, 8, 4, 0]
           else [CHR 0x5C, CHR ''U'']
                  @ map (\<lambda>s. hexDigit ((r div 2 ^ s) mod 16)) [28, 24, 20, 16, 12, 8, 4, 0])"

fun appendQuoted :: "(nat \<Rightarrow> bool) \<Rightarrow> string \<Rightarrow> string" where
  "appendQuoted printable [] = []"
| "appendQuoted printable (c # s) =
     (let (r, width) = (if (of_char c :: nat) \<ge> 0x80 then DecodeRune (c # s) else (of_char c, 1))
      in (if width = 1 \<and> r = RuneError
          then [CHR 0x5C, CHR ''x'', hexDigit (of_char c div 16), hexDigit (of_char c mod 16)]
          else appendEscapedRune printable r)
         @ appendQuoted printable (drop (width - 1) s))"

definition quote :: "(nat \<Rightarrow> bool) \<Rightarrow> string \<Rightarrow> string" where
  "quote printable s = [CHR 0x22] @ appendQuoted printable s @ [CHR 0x22]"

text \<open>
  The conversion of the checksum to Go's \<^verbatim>\<open>int\<close> of \<open>intSize\<close> bits (32 or 64),
  and the negation of such an \<^verbatim>\<open>int\<close>, which wraps at the least value.
\<close>

definition int_of_uint32 :: "nat \<Rightarrow> nat \<Rightarrow> int" where
  "int_of_uint32 intSize n = (if n < 2 ^ (intSize - 1) then int n else int n - 2 ^ intSize)"

definition int_neg :: "nat \<Rightarrow> int \<Rightarrow> int" where
  "int_neg intSize h = (if h = - (2 ^ (intSize - 1)) then h else - h)"

text \<open>The buffer that \<^verbatim>\<open>attributeHash\<close> fills, and the hash.\<close>

definition attributeRendering :: "(nat \<Rightarrow> bool) \<Rightarrow> attr \<Rightarrow> string" where
  "attributeRendering printable v =
     (let buffer = ''map {'';
          buffer = buffer @ quote printable (fst v) @ '' := '' @ quote printable (snd v) @ '';'';
          buffer = buffer @ ''}''
      in buffer)"

definition attributeHash :: "(nat \<Rightarrow> bool) \<Rightarrow> nat \<Rightarrow> attr \<Rightarrow> int" where
  "attributeHash printable intSize v =
     (let h = int_of_uint32 intSize (ChecksumIEEE (attributeRendering printable v))
      in if h \<ge> 0 then h
         else if int_neg intSize h \<ge> 0 then int_neg intSize h
         else 0)"

subsection \<open>The set of names (util.Set)\<close>

text \<open>
  Modelled from the spec: the type \<^verbatim>\<open>util.Set\<close> (package util of this repository is
  not among the sources). The spec speaks of sets of attribute names
  (Removed, Added, Kept, Changed); the source uses \<^verbatim>\<open>NewSet\<close>, \<^verbatim>\<open>Add\<close>,
  \<^verbatim>\<open>Contains\<close> and \<^verbatim>\<open>List\<close>. A set of names is a list without duplicates.
  \<^verbatim>\<open>List\<close> enumerates every member once, in an order that is not specified
  (a Go map's iteration order): the order is given by a ranking of the names,
  an arbitrary parameter, so a statement proved for every ranking holds for
  every enumeration order.
\<close>

type_synonym names = "string list"

definition util_NewSet :: names where
  "util_NewSet = []"

definition util_Add :: "string \<Rightarrow> names \<Rightarrow> names" where
  "util_Add k s = (if k \<in> set s then s else s @ [k])"

definition util_Contains :: "names \<Rightarrow> string \<Rightarrow> bool" where
  "util_Contains s k = (k \<in> set s)"

definition util_List :: "(string \<Rightarrow> nat) \<Rightarrow> names \<Rightarrow> string list" where
  "util_List rank s = sort_key rank s"

subsection \<open>Value codec\<close>

text \<open>
  \<^verbatim>\<open>Encoder.String\<close> of golang.org/x/text/encoding returns the converted string,
  or the empty string together with the error when the transformer fails. The
  transformer is a parameter of the codec and of the diffs that call it.
\<close>

definition Encoder_String :: "(string \<Rightarrow> error + string) \<Rightarrow> string \<Rightarrow> string \<times> error option" where
  "Encoder_String t s = (case t s of Inl e \<Rightarrow> ([], Some e) | Inr r \<Rightarrow> (r, None))"

definition toAttributeValue :: "(string \<Rightarrow> error + string) \<Rightarrow> string \<Rightarrow> string \<Rightarrow> string" where
  "toAttributeValue utf16 name v =
     (if name = ''unicodePwd''
      then (let (pwdEncoded, _) = Encoder_String utf16 ([CHR 0x22] @ v @ [CHR 0x22])
            in pwdEncoded)
      else v)"

text \<open>
  The transformer that the provider passes,
  \<^verbatim>\<open>unicode.UTF16(unicode.LittleEndian, unicode.IgnoreBOM).NewEncoder()\<close>: it
  decodes the source rune by rune (a byte that starts no well-formed UTF-8 sequence
  is the rune \<^verbatim>\<open>RuneError\<close>, of width 1) and writes every rune as one 16-bit unit,
  or as the surrogate pair of \<^verbatim>\<open>utf16.EncodeRune\<close>, each unit with its low byte
  first and with no byte-order mark. It reports no error on any source.
\<close>

definition utf16_EncodeRune :: "nat \<Rightarrow> nat \<times> nat" where
  "utf16_EncodeRune r =
     (if r < 0x10000 \<or> r > 0x10FFFF then (0xFFFD, 0xFFFD)
      else (let r = r - 0x10000
            in (0xD800 + (r div 1024) mod 1024, 0xDC00 + r mod 1024)))"

definition utf16Encoder_rune :: "nat \<Rightarrow> string" where
  "utf16Encoder_rune r =
     (if r \<le> 0xFFFF then [uint8 r, uint8 (r div 256)]
      else (let (r1, r2) = utf16_EncodeRune r
            in [uint8 r1, uint8 (r1 div 256), uint8 r2, uint8 (r2 div 256)]))"

fun utf16Encoder_Transform :: "string \<Rightarrow> string" where
  "utf16Encoder_Transform [] = []"
| "utf16Encoder_Transform (c # src) =
     (let (r, size) = (if (of_char c :: nat) < 0x80 then (of_char c, 1) else DecodeRune (c # src))
      in utf16Encoder_rune r @ utf16Encoder_Transform (drop (size - 1) src))"

definition UTF16_LittleEndian :: "string \<Rightarrow> error + string" where
  "UTF16_LittleEndian s = Inr (utf16Encoder_Transform s)"

subsection \<open>Modify requests\<close>

datatype operation = AddAttribute | DeleteAttribute | ReplaceAttribute

datatype change = Change (Operation: operation) (AttrType: string) (AttrVals: "string list")

definition ModifyRequest_Add :: "change list \<Rightarrow> string \<Rightarrow> string list \<Rightarrow> change list" where
  "ModifyRequest_Add changes attrType attrVals = changes @ [Change AddAttribute attrType attrVals]"

definition ModifyRequest_Delete :: "change list \<Rightarrow> string \<Rightarrow> string list \<Rightarrow> change list" where
  "ModifyRequest_Delete changes attrType attrVals = changes @ [Change DeleteAttribute attrType attrVals]"

definition ModifyRequest_Replace :: "change list \<Rightarrow> string \<Rightarrow> string list \<Rightarrow> change list" where
  "ModifyRequest_Replace changes attrType attrVals = changes @ [Change ReplaceAttribute attrType attrVals]"

section \<open>The diff engines\<close>

fun stringSliceContains :: "string list \<Rightarrow> string \<Rightarrow> bool" where
  "stringSliceContains [] needle = False"
| "stringSliceContains (h # haystack) needle =
     (if needle = h then True else stringSliceContains haystack needle)"

definition shouldSkipAttribute :: "string list \<Rightarrow> string list \<Rightarrow> string \<Rightarrow> bool" where
  "shouldSkipAttribute attributesToSkip attributesToSet k =
     (if length attributesToSet > 0 \<and> \<not> stringSliceContains attributesToSet k then True
      else if length attributesToSkip > 0 \<and> stringSliceContains attributesToSkip k then True
      else False)"

text \<open>The names of the items of a list, collected into a set of names.\<close>

definition attributeNames :: "attr list \<Rightarrow> names" where
  "attributeNames items = fold (\<lambda>(k, v) s. util_Add k s) items util_NewSet"

text \<open>The values under the name \<open>k\<close> in a list of items, each through the codec.\<close>

definition attributeValues :: "(string \<Rightarrow> error + string) \<Rightarrow> string \<Rightarrow> attr list \<Rightarrow> string list" where
  "attributeValues utf16 k items =
     fold (\<lambda>(mk, mv) vals. if k = mk then vals @ [toAttributeValue utf16 k mv] else vals) items []"

definition removedStep ::
  "string list \<Rightarrow> string list \<Rightarrow> names \<Rightarrow> names \<Rightarrow> string \<Rightarrow> change list \<times> names \<Rightarrow> change list \<times> names" where
  "removedStep attributesToSkip attributesToSet ak kk k st =
     (case st of (modify, ck) \<Rightarrow>
        if shouldSkipAttribute attributesToSkip attributesToSet k then (modify, ck)
        else if \<not> util_Contains ak k \<and> \<not> util_Contains kk k
             then (ModifyRequest_Delete modify k [], ck)
             else (modify, util_Add k ck))"

definition addedStep ::
  "(string \<Rightarrow> error + string) \<Rightarrow> string list \<Rightarrow> string list \<Rightarrow> names \<Rightarrow> names \<Rightarrow> attr list
     \<Rightarrow> string \<Rightarrow> change list \<times> names \<Rightarrow> change list \<times> names" where
  "addedStep utf16 attributesToSkip attributesToSet rk kk nsl k st =
     (case st of (modify, ck) \<Rightarrow>
        if shouldSkipAttribute attributesToSkip attributesToSet k then (modify, ck)
        else if \<not> util_Contains rk k \<and> \<not> util_Contains kk k
             then (ModifyRequest_Add modify k (attributeValues utf16 k nsl), ck)
             else (modify, util_Add k ck))"

definition changedStep ::
  "(string \<Rightarrow> error + string) \<Rightarrow> string list \<Rightarrow> string list \<Rightarrow> attr list
     \<Rightarrow> string \<Rightarrow> change list \<Rightarrow> change list" where
  "changedStep utf16 attributesToSkip attributesToSet nsl k modify =
     (if shouldSkipAttribute attributesToSkip attributesToSet k then modify
      else ModifyRequest_Replace modify k (attributeValues utf16 k nsl))"

text \<open>
  Full-ownership diff. \<open>ord i\<close> ranks the names for the \<open>i\<close>-th enumeration of a
  set of names. The function of the source always returns a nil error.
\<close>

definition computeAndAddDeltas ::
  "(nat \<Rightarrow> string \<Rightarrow> nat) \<Rightarrow> (string \<Rightarrow> error + string) \<Rightarrow> change list \<Rightarrow> sset \<Rightarrow> sset
     \<Rightarrow> string list \<Rightarrow> string list \<Rightarrow> change list \<times> error option" where
  "computeAndAddDeltas ord utf16 modify os ns attributesToSkip attributesToSet =
     (let rk = attributeNames (Set_List (Set_Difference os ns));
          ak = attributeNames (Set_List (Set_Difference ns os));
          kk = attributeNames (Set_List (Set_Intersection ns os));
          ck = util_NewSet;
          (modify, ck) = fold (removedStep attributesToSkip attributesToSet ak kk)
                           (util_List (ord 0) rk) (modify, ck);
          (modify, ck) = fold (addedStep utf16 attributesToSkip attributesToSet rk kk (Set_List ns))
                           (util_List (ord 1) ak) (modify, ck);
          modify = fold (changedStep utf16 attributesToSkip attributesToSet (Set_List ns))
                           (util_List (ord 2) ck) modify
      in (modify, None))"

text \<open>Partial-ownership diff.\<close>

definition computeAndAddAttributeDeltas ::
  "(nat \<Rightarrow> string \<Rightarrow> nat) \<Rightarrow> (string \<Rightarrow> error + string) \<Rightarrow> change list \<Rightarrow> sset \<Rightarrow> sset
     \<Rightarrow> change list \<times> error option" where
  "computeAndAddAttributeDeltas ord utf16 modify os ns =
     (let ra = Set_Difference os ns;
          rk = attributeNames (Set_List ra);
          aa = Set_Difference ns os;
          ak = attributeNames (Set_List aa);
          modify = fold (\<lambda>k modify. ModifyRequest_Delete modify k (attributeValues utf16 k (Set_List ra)))
                     (util_List (ord 0) rk) modify;
          modify = fold (\<lambda>k modify. ModifyRequest_Add modify k (attributeValues utf16 k (Set_List aa)))
                     (util_List (ord 1) ak) modify
      in (modify, None))"

text \<open>The changes of a request that concern the attribute \<open>k\<close>.\<close>

definition named :: "string \<Rightarrow> change list \<Rightarrow> change list" where
  "named k changes = filter (\<lambda>c. AttrType c = k) changes"

section \<open>Directory client and resource data\<close>

text \<open>
  An entry of a search result: its DN and its attributes, each a name with its
  list of values.
\<close>

record entry =
  DN :: string
  Attributes :: "(string \<times> string list) list"

fun GetAttributeValues :: "(string \<times> string list) list \<Rightarrow> string \<Rightarrow> string list" where
  "GetAttributeValues [] attribute = []"
| "GetAttributeValues ((name, vals) # attrs) attribute =
     (if name = attribute then vals else GetAttributeValues attrs attribute)"

text \<open>
  The requests the provider sends: a search (base DN, filter, requested
  attributes; always base-object scope), an add (DN, attributes), a modify
  (DN, changes) and a delete (DN). The directory is a parameter: a function
  from the request to the error or the entries it answers with. Every
  operation returns the requests it sent, in order, the resource data as it
  leaves them, and how it ended: with the returned error (\<open>None\<close> is nil), or
  with a run-time panic (the index expression \<^verbatim>\<open>sr.Entries[0]\<close> on a result
  without entries, or a type assertion on nil).
\<close>

datatype request =
    SearchRequest string string "string list"
  | AddRequest string "(string \<times> string list) list"
  | ModifyRequest string "change list"
  | DelRequest string

type_synonym client = "request \<Rightarrow> error + entry list"

datatype outcome = Return "error option" | Panic

text \<open>
  The resource data \<^verbatim>\<open>d\<close>: the id, the fields of the schema, and for the fields
  read through \<^verbatim>\<open>GetChange\<close>/\<^verbatim>\<open>HasChange\<close> also the value of the prior state.
  The sets of strings are held as the lists their \<^verbatim>\<open>List()\<close> returns.
  \<open>set_error\<close> is the error \<^verbatim>\<open>d.Set("attributes", ...)\<close> answers with (nil
  for a value of the schema's type); the result of setting the object classes
  is ignored by the source.
\<close>

record resource_data =
  ResourceId :: string
  dn :: string
  object_classes_state :: "string list"
  object_classes :: "string list"
  attributes_state :: sset
  attributes :: sset
  skip_attributes :: "string list"
  select_attributes :: "string list"
  set_error :: "error option"

definition HasChange_attributes :: "resource_data \<Rightarrow> bool" where
  "HasChange_attributes d = (\<not> Set_Equal (attributes_state d) (attributes d))"

definition HasChange_object_classes :: "resource_data \<Rightarrow> bool" where
  "HasChange_object_classes d = (object_classes_state d \<noteq> object_classes d)"

definition Set_attributes :: "resource_data \<Rightarrow> sset \<Rightarrow> resource_data \<times> error option" where
  "Set_attributes d v =
     (case set_error d of Some err \<Rightarrow> (d, Some err) | None \<Rightarrow> (d\<lparr>attributes := v\<rparr>, None))"

definition HasPrefix :: "string \<Rightarrow> string \<Rightarrow> bool" where
  "HasPrefix s p = (length p \<le> length s \<and> take (length p) s = p)"

text \<open>
  The test of the read loops for the entry's own RDN: exactly one value, and
  \<^verbatim>\<open>name=value\<close> is a prefix of the DN.
\<close>

definition isRDN :: "string \<Rightarrow> string \<times> string list \<Rightarrow> bool" where
  "isRDN baseDN attribute =
     (case attribute of (name, vals) \<Rightarrow>
        if length vals = 1 then HasPrefix baseDN (name @ ''='' @ vals ! 0) else False)"

section \<open>The resource ldap\_object (full ownership)\<close>

definition resourceLDAPObjectExists :: "client \<Rightarrow> resource_data \<Rightarrow> request list \<times> bool \<times> error option" where
  "resourceLDAPObjectExists l d =
     (let request = SearchRequest (dn d) ''(objectClass=*)'' []
      in case l request of
           Inl err \<Rightarrow>
             (case err of
                LdapError code \<Rightarrow>
                  if code = 32 then ([request], False, None) else ([request], False, Some err)
              | OtherError \<Rightarrow> ([request], False, Some err))
         | Inr sr \<Rightarrow> ([request], True, None))"

text \<open>One round of the loop of \<^verbatim>\<open>readLDAPObject\<close> over the entry's attributes.\<close>

definition readStep ::
  "(attr \<Rightarrow> int) \<Rightarrow> string \<Rightarrow> string list \<Rightarrow> string list \<Rightarrow> string \<times> string list \<Rightarrow> sset \<Rightarrow> sset" where
  "readStep F baseDN attributesToSkip attributesToSet attribute s =
     (if stringSliceContains attributesToSkip (fst attribute) then s
      else if length attributesToSet > 0 \<and> \<not> stringSliceContains attributesToSet (fst attribute) then s
      else if isRDN baseDN attribute then s
      else fold (\<lambda>v s. Set_Add F (fst attribute, v) s) (snd attribute) s)"

definition readAttributes ::
  "(attr \<Rightarrow> int) \<Rightarrow> string \<Rightarrow> string list \<Rightarrow> string list \<Rightarrow> (string \<times> string list) list \<Rightarrow> sset" where
  "readAttributes F baseDN attributesToSkip attributesToSet attrs =
     fold (readStep F baseDN attributesToSkip attributesToSet) attrs []"

definition readLDAPObject ::
  "(attr \<Rightarrow> int) \<Rightarrow> client \<Rightarrow> resource_data \<Rightarrow> bool \<Rightarrow> request list \<times> resource_data \<times> outcome" where
  "readLDAPObject F client d updateState =
     (let request = SearchRequest (dn d) ''(objectclass=*)'' [''*'']
      in case client request of
           Inl err \<Rightarrow>
             (case err of
                LdapError code \<Rightarrow>
                  if code = 32 \<and> updateState
                  then ([request], d\<lparr>ResourceId := []\<rparr>, Return None)
                  else ([request], d, Return (Some err))
              | OtherError \<Rightarrow> ([request], d, Return (Some err)))
         | Inr entries \<Rightarrow>
             (case entries of
                [] \<Rightarrow> ([request], d\<lparr>ResourceId := dn d\<rparr>, Panic)
              | e # _ \<Rightarrow>
                  (let d = d\<lparr>ResourceId := dn d\<rparr>;
                       d = d\<lparr>object_classes := GetAttributeValues (Attributes e) ''objectClass''\<rparr>;
                       attributesToSkip = [''objectClass''] @ skip_attributes d;
                       attributesToSet = [] @ select_attributes d;
                       s = readAttributes F (dn d) attributesToSkip attributesToSet (Attributes e)
                   in case Set_attributes d s of
                        (d, Some err) \<Rightarrow> ([request], d, Return (Some err))
                      | (d, None) \<Rightarrow> ([request], d, Return None))))"

definition resourceLDAPObjectRead ::
  "(attr \<Rightarrow> int) \<Rightarrow> client \<Rightarrow> resource_data \<Rightarrow> request list \<times> resource_data \<times> outcome" where
  "resourceLDAPObjectRead F client d = readLDAPObject F client d True"

text \<open>
  The map from names to value lists that create accumulates
  (\<^verbatim>\<open>m[name] = append(m[name], v)\<close>), as an association list.
\<close>

definition appendValue :: "string \<Rightarrow> string \<Rightarrow> (string \<times> string list) list \<Rightarrow> (string \<times> string list) list" where
  "appendValue name v m =
     (if name \<in> fst ` set m
      then map (\<lambda>(n, vs). if n = name then (n, vs @ [v]) else (n, vs)) m
      else m @ [(name, [v])])"

definition createStep ::
  "(string \<Rightarrow> error + string) \<Rightarrow> string list \<Rightarrow> string list \<Rightarrow> attr
     \<Rightarrow> (string \<times> string list) list \<Rightarrow> (string \<times> string list) list" where
  "createStep utf16 attributesToSkip attributesToSet attribute m =
     (case attribute of (name, v) \<Rightarrow>
        if stringSliceContains attributesToSkip name then m
        else if length attributesToSet > 0 \<and> \<not> stringSliceContains attributesToSet name then m
        else appendValue name (toAttributeValue utf16 name v) m)"

text \<open>The attributes of the add request that create builds.\<close>

definition resourceLDAPObjectCreate_attributes ::
  "(nat \<Rightarrow> string \<Rightarrow> nat) \<Rightarrow> (string \<Rightarrow> error + string) \<Rightarrow> resource_data \<Rightarrow> (string \<times> string list) list" where
  "resourceLDAPObjectCreate_attributes ord utf16 d =
     (let objectClasses = [] @ object_classes d;
          request = [(''objectClass'', objectClasses)];
          attributesToSkip = [''objectClass''] @ skip_attributes d;
          attributesToSet = [] @ select_attributes d;
          attrs = Set_List (attributes d)
      in if length attrs > 0
         then (let m = fold (createStep utf16 attributesToSkip attributesToSet) attrs []
               in request @ sort_key (\<lambda>(name, vals). ord 0 name) m)
         else request)"

definition resourceLDAPObjectCreate ::
  "(attr \<Rightarrow> int) \<Rightarrow> (nat \<Rightarrow> string \<Rightarrow> nat) \<Rightarrow> (string \<Rightarrow> error + string) \<Rightarrow> client \<Rightarrow> resource_data
     \<Rightarrow> request list \<times> resource_data \<times> outcome" where
  "resourceLDAPObjectCreate F ord utf16 client d =
     (let request = AddRequest (dn d) (resourceLDAPObjectCreate_attributes ord utf16 d)
      in case client request of
           Inl err \<Rightarrow> ([request], d, Return (Some err))
         | Inr _ \<Rightarrow>
             (let d = d\<lparr>ResourceId := dn d\<rparr>
              in case resourceLDAPObjectRead F client d of
                   (sent, d', out) \<Rightarrow> (request # sent, d', out)))"

text \<open>The changes of the modify request that update builds, with the error of the diff.\<close>

definition resourceLDAPObjectUpdate_changes ::
  "(nat \<Rightarrow> string \<Rightarrow> nat) \<Rightarrow> (string \<Rightarrow> error + string) \<Rightarrow> resource_data \<Rightarrow> change list \<times> error option" where
  "resourceLDAPObjectUpdate_changes ord utf16 d =
     (let attributesToSkip = [''objectClass''] @ skip_attributes d;
          attributesToSet = [] @ select_attributes d;
          modify = [];
          modify = (if HasChange_object_classes d
                    then ModifyRequest_Replace modify ''objectClass'' ([] @ object_classes d)
                    else modify)
      in if HasChange_attributes d
         then computeAndAddDeltas ord utf16 modify (attributes_state d) (attributes d)
                attributesToSkip attributesToSet
         else (modify, None))"

definition resourceLDAPObjectUpdate ::
  "(attr \<Rightarrow> int) \<Rightarrow> (nat \<Rightarrow> string \<Rightarrow> nat) \<Rightarrow> (string \<Rightarrow> error + string) \<Rightarrow> client \<Rightarrow> resource_data
     \<Rightarrow> request list \<times> resource_data \<times> outcome" where
  "resourceLDAPObjectUpdate F ord utf16 client d =
     (case resourceLDAPObjectUpdate_changes ord utf16 d of
        (modify, Some err) \<Rightarrow> ([], d, Return (Some err))
      | (modify, None) \<Rightarrow>
          if length modify > 0
          then (case client (ModifyRequest (ResourceId d) modify) of
                  Inl err \<Rightarrow> ([ModifyRequest (ResourceId d) modify], d, Return (Some err))
                | Inr _ \<Rightarrow>
                    (case resourceLDAPObjectRead F client d of
                       (sent, d', out) \<Rightarrow> (ModifyRequest (ResourceId d) modify # sent, d', out)))
          else resourceLDAPObjectRead F client d)"

definition resourceLDAPObjectDelete :: "client \<Rightarrow> resource_data \<Rightarrow> request list \<times> resource_data \<times> outcome" where
  "resourceLDAPObjectDelete client d =
     (let request = DelRequest (dn d)
      in case client request of
           Inl err \<Rightarrow> ([request], d, Return (Some err))
         | Inr _ \<Rightarrow> ([request], d, Return None))"

section \<open>The resource ldap\_object\_attributes (partial ownership)\<close>

text \<open>
  The sources hold two files that declare this resource. The definitions of
  this section follow the one that has \<^verbatim>\<open>computeAndAddAttributeDeltas\<close>; the
  definitions of the next section, with the suffix \<open>_v0\<close>, follow the other one.
\<close>

definition ldapStep :: "(attr \<Rightarrow> int) \<Rightarrow> string \<Rightarrow> string \<times> string list \<Rightarrow> sset \<Rightarrow> sset" where
  "ldapStep F baseDN attribute s =
     (if isRDN baseDN attribute then s
      else fold (\<lambda>v s. Set_Add F (fst attribute, v) s) (snd attribute) s)"

definition ldapAttributes :: "(attr \<Rightarrow> int) \<Rightarrow> string \<Rightarrow> (string \<times> string list) list \<Rightarrow> sset" where
  "ldapAttributes F baseDN attrs = fold (ldapStep F baseDN) attrs []"

text \<open>The union of the old and the new set when a change is pending, the configured set otherwise.\<close>

definition unionOfChange :: "resource_data \<Rightarrow> sset" where
  "unionOfChange d =
     (let (oldSet, newSet) =
            (if HasChange_attributes d then (Some (attributes_state d), attributes d)
             else (None, attributes d))
      in case oldSet of Some oldSet \<Rightarrow> Set_Union oldSet newSet | None \<Rightarrow> newSet)"

definition resourceLDAPObjectAttributesRead ::
  "(attr \<Rightarrow> int) \<Rightarrow> client \<Rightarrow> resource_data \<Rightarrow> request list \<times> resource_data \<times> outcome" where
  "resourceLDAPObjectAttributesRead F client d =
     (let request = SearchRequest (dn d) ''(objectclass=*)'' [''*'']
      in case client request of
           Inl err \<Rightarrow>
             (case err of
                LdapError code \<Rightarrow>
                  if code = 32
                  then ([request], d\<lparr>ResourceId := []\<rparr>, Return (Some err))
                  else ([request], d, Return (Some err))
              | OtherError \<Rightarrow> ([request], d, Return (Some err)))
         | Inr entries \<Rightarrow>
             (case entries of
                [] \<Rightarrow> ([request], d, Panic)
              | e # _ \<Rightarrow>
                  (let ldapSet = ldapAttributes F (dn d) (Attributes e);
                       unionSet = unionOfChange d;
                       s = Set_Intersection unionSet ldapSet
                   in if Set_Len s = 0 then ([request], d\<lparr>ResourceId := []\<rparr>, Return None)
                      else (case Set_attributes d s of
                              (d, Some err) \<Rightarrow> ([request], d, Return (Some err))
                            | (d, None) \<Rightarrow> ([request], d\<lparr>ResourceId := dn d\<rparr>, Return None)))))"

definition resourceLDAPObjectAttributesUpdate_changes ::
  "(nat \<Rightarrow> string \<Rightarrow> nat) \<Rightarrow> (string \<Rightarrow> error + string) \<Rightarrow> resource_data \<Rightarrow> change list \<times> error option" where
  "resourceLDAPObjectAttributesUpdate_changes ord utf16 d =
     (if HasChange_attributes d
      then computeAndAddAttributeDeltas ord utf16 [] (attributes_state d) (attributes d)
      else ([], None))"

definition resourceLDAPObjectAttributesUpdate ::
  "(attr \<Rightarrow> int) \<Rightarrow> (nat \<Rightarrow> string \<Rightarrow> nat) \<Rightarrow> (string \<Rightarrow> error + string) \<Rightarrow> client \<Rightarrow> resource_data
     \<Rightarrow> request list \<times> resource_data \<times> outcome" where
  "resourceLDAPObjectAttributesUpdate F ord utf16 client d =
     (case resourceLDAPObjectAttributesUpdate_changes ord utf16 d of
        (modify, Some err) \<Rightarrow> ([], d, Return (Some err))
      | (modify, None) \<Rightarrow>
          if length modify > 0
          then (case client (ModifyRequest (dn d) modify) of
                  Inl err \<Rightarrow> ([ModifyRequest (dn d) modify], d, Return (Some err))
                | Inr _ \<Rightarrow>
                    (case resourceLDAPObjectAttributesRead F client d of
                       (sent, d', out) \<Rightarrow> (ModifyRequest (dn d) modify # sent, d', out)))
          else resourceLDAPObjectAttributesRead F client d)"

definition resourceLDAPObjectAttributesDelete_changes ::
  "(nat \<Rightarrow> string \<Rightarrow> nat) \<Rightarrow> (string \<Rightarrow> error + string) \<Rightarrow> resource_data \<Rightarrow> change list \<times> error option" where
  "resourceLDAPObjectAttributesDelete_changes ord utf16 d =
     computeAndAddAttributeDeltas ord utf16 [] (attributes d) []"

definition resourceLDAPObjectAttributesDelete ::
  "(nat \<Rightarrow> string \<Rightarrow> nat) \<Rightarrow> (string \<Rightarrow> error + string) \<Rightarrow> client \<Rightarrow> resource_data
     \<Rightarrow> request list \<times> resource_data \<times> outcome" where
  "resourceLDAPObjectAttributesDelete ord utf16 client d =
     (case resourceLDAPObjectAttributesDelete_changes ord utf16 d of
        (modify, Some err) \<Rightarrow> ([], d, Return (Some err))
      | (modify, None) \<Rightarrow>
          if length modify > 0
          then (case client (ModifyRequest (dn d) modify) of
                  Inl err \<Rightarrow> ([ModifyRequest (dn d) modify], d, Return (Some err))
                | Inr _ \<Rightarrow> ([ModifyRequest (dn d) modify], d, Return None))
          else ([], d, Return None))"

section \<open>The second file of ldap\_object\_attributes\<close>

definition ldapAttributes_v0 :: "(attr \<Rightarrow> int) \<Rightarrow> (string \<times> string list) list \<Rightarrow> sset" where
  "ldapAttributes_v0 F attrs =
     fold (\<lambda>attribute s. fold (\<lambda>v s. Set_Add F (fst attribute, v) s) (snd attribute) s) attrs []"

definition resourceLDAPObjectAttributesRead_v0 ::
  "(attr \<Rightarrow> int) \<Rightarrow> client \<Rightarrow> resource_data \<Rightarrow> request list \<times> resource_data \<times> outcome" where
  "resourceLDAPObjectAttributesRead_v0 F client d =
     (let request = SearchRequest (dn d) ''(objectclass=*)'' [''*'']
      in case client request of
           Inl err \<Rightarrow>
             (case err of
                LdapError code \<Rightarrow>
                  if code = 32
                  then ([request], d\<lparr>ResourceId := []\<rparr>, Return (Some err))
                  else ([request], d, Return (Some err))
              | OtherError \<Rightarrow> ([request], d, Return (Some err)))
         | Inr entries \<Rightarrow>
             (case entries of
                [] \<Rightarrow> ([request], d, Panic)
              | e # _ \<Rightarrow>
                  (let ldapSet = ldapAttributes_v0 F (Attributes e);
                       unionSet = unionOfChange d;
                       s = Set_Intersection unionSet unionSet
                   in if Set_Len s = 0 then ([request], d\<lparr>ResourceId := []\<rparr>, Return None)
                      else (case Set_attributes d s of
                              (d, Some err) \<Rightarrow> ([request], d, Return (Some err))
                            | (d, None) \<Rightarrow> ([request], d\<lparr>ResourceId := dn d\<rparr>, Return None)))))"

definition resourceLDAPObjectAttributesUpdate_changes_v0 ::
  "(nat \<Rightarrow> string \<Rightarrow> nat) \<Rightarrow> (string \<Rightarrow> error + string) \<Rightarrow> resource_data \<Rightarrow> change list \<times> error option" where
  "resourceLDAPObjectAttributesUpdate_changes_v0 ord utf16 d =
     (if HasChange_attributes d
      then computeAndAddDeltas ord utf16 [] (attributes_state d) (attributes d) [] []
      else ([], None))"

text \<open>
  The update of this file ends with \<^verbatim>\<open>resourceLDAPObjectRead\<close>, the read of the other
  resource, on the resource data of this one. The schema of ldap\_object\_attributes
  declares \<^verbatim>\<open>dn\<close> and \<^verbatim>\<open>attributes\<close> only. So when the search has succeeded,
  \<^verbatim>\<open>readLDAPObject\<close> sets the id, fails to set \<^verbatim>\<open>object_classes\<close> (or panics on
  \<^verbatim>\<open>sr.Entries[0]\<close>), ignores that error, and panics on the type assertion of
  \<^verbatim>\<open>d.Get("skip_attributes")\<close>, which is nil, to a set; it never builds a set, and
  the hash \<open>F\<close> is not used.
\<close>

definition readLDAPObject_v0 :: "client \<Rightarrow> resource_data \<Rightarrow> bool \<Rightarrow> request list \<times> resource_data \<times> outcome" where
  "readLDAPObject_v0 client d updateState =
     (let request = SearchRequest (dn d) ''(objectclass=*)'' [''*'']
      in case client request of
           Inl err \<Rightarrow>
             (case err of
                LdapError code \<Rightarrow>
                  if code = 32 \<and> updateState
                  then ([request], d\<lparr>ResourceId := []\<rparr>, Return None)
                  else ([request], d, Return (Some err))
              | OtherError \<Rightarrow> ([request], d, Return (Some err)))
         | Inr entries \<Rightarrow> ([request], d\<lparr>ResourceId := dn d\<rparr>, Panic))"

definition resourceLDAPObjectRead_v0 :: "client \<Rightarrow> resource_data \<Rightarrow> request list \<times> resource_data \<times> outcome" where
  "resourceLDAPObjectRead_v0 client d = readLDAPObject_v0 client d True"

definition resourceLDAPObjectAttributesUpdate_v0 ::
  "(attr \<Rightarrow> int) \<Rightarrow> (nat \<Rightarrow> string \<Rightarrow> nat) \<Rightarrow> (string \<Rightarrow> error + string) \<Rightarrow> client \<Rightarrow> resource_data
     \<Rightarrow> request list \<times> resource_data \<times> outcome" where
  "resourceLDAPObjectAttributesUpdate_v0 F ord utf16 client d =
     (case resourceLDAPObjectAttributesUpdate_changes_v0 ord utf16 d of
        (modify, Some err) \<Rightarrow> ([], d, Return (Some err))
      | (modify, None) \<Rightarrow>
          if length modify > 0
          then (case client (ModifyRequest (dn d) modify) of
                  Inl err \<Rightarrow> ([ModifyRequest (dn d) modify], d, Return (Some err))
                | Inr _ \<Rightarrow>
                    (case resourceLDAPObjectRead_v0 client d of
                       (sent, d', out) \<Rightarrow> (ModifyRequest (dn d) modify # sent, d', out)))
          else resourceLDAPObjectRead_v0 client d)"

definition resourceLDAPObjectAttributesDelete_changes_v0 ::
  "(nat \<Rightarrow> string \<Rightarrow> nat) \<Rightarrow> (string \<Rightarrow> error + string) \<Rightarrow> resource_data \<Rightarrow> change list \<times> error option" where
  "resourceLDAPObjectAttributesDelete_changes_v0 ord utf16 d =
     computeAndAddDeltas ord utf16 [] (attributes d) [] [] []"

definition resourceLDAPObjectAttributesDelete_v0 ::
  "(nat \<Rightarrow> string \<Rightarrow> nat) \<Rightarrow> (string \<Rightarrow> error + string) \<Rightarrow> client \<Rightarrow> resource_data
     \<Rightarrow> request list \<times> resource_data \<times> outcome" where
  "resourceLDAPObjectAttributesDelete_v0 ord utf16 client d =
     (case resourceLDAPObjectAttributesDelete_changes_v0 ord utf16 d of
        (modify, Some err) \<Rightarrow> ([], d, Return (Some err))
      | (modify, None) \<Rightarrow>
          if length modify > 0
          then (case client (ModifyRequest (dn d) modify) of
                  Inl err \<Rightarrow> ([ModifyRequest (dn d) modify], d, Return (Some err))
                | Inr _ \<Rightarrow> ([ModifyRequest (dn d) modify], d, Return None))
          else ([], d, Return None))"

section \<open>The items of a read loop\<close>

text \<open>
  An attribute of the entry is taken by a read loop when its name passes the
  filter and it is not the RDN; the items a read loop adds, in order.
\<close>

definition taken :: "string \<Rightarrow> string list \<Rightarrow> string list \<Rightarrow> string \<times> string list \<Rightarrow> bool" where
  "taken baseDN attributesToSkip attributesToSet attribute =
     (\<not> shouldSkipAttribute attributesToSkip attributesToSet (fst attribute) \<and> \<not> isRDN baseDN attribute)"

definition takenItems ::
  "string \<Rightarrow> string list \<Rightarrow> string list \<Rightarrow> (string \<times> string list) list \<Rightarrow> attr list" where
  "takenItems baseDN attributesToSkip attributesToSet attrs =
     concat (map (\<lambda>a. if taken baseDN attributesToSkip attributesToSet a
                       then map (\<lambda>v. (fst a, v)) (snd a) else []) attrs)"

section \<open>Concrete inputs\<close>

text \<open>
  Inputs at which the theorems below are evaluated: the hash of the provider
  with Go's \<^verbatim>\<open>int\<close> of 64 bits (the names and values below are ASCII text, for
  which the tables of printable runes are not consulted: the hash takes every
  rune above \<^verbatim>\<open>0xFF\<close> as printable), the enumeration order that ranks all names
  alike (so a set of names is listed in insertion order), and the UTF-16
  transformer on ASCII text (every byte followed by a zero byte).
\<close>

definition attributeHash64 :: "attr \<Rightarrow> int" where
  "attributeHash64 = attributeHash (\<lambda>r. True) 64"

definition insertionOrder :: "nat \<Rightarrow> string \<Rightarrow> nat" where
  "insertionOrder i k = 0"

definition utf16_ascii :: "string \<Rightarrow> error + string" where
  "utf16_ascii s = Inr (concat (map (\<lambda>c. [c, CHR 0x00]) s))"

text \<open>
  Resource data with a pending change of the attribute \<open>a\<close> from the values 1, 2
  to the values 1, 3; resource data that owns the single value 1 of \<open>a\<close>, no
  change pending; resource data that names objectClass among its attributes
  and its selected attributes. An entry \<^verbatim>\<open>cn=foo,dc=x\<close> with its RDN, two object
  classes and a surname; a directory that answers every request with that
  entry, and one that answers every request with result code 32.
\<close>

definition exampleData :: resource_data where
  "exampleData =
     \<lparr>ResourceId = ''cn=foo,dc=x'', dn = ''cn=foo,dc=x'',
      object_classes_state = [''person''], object_classes = [''person'', ''top''],
      attributes_state = Set_of attributeHash64 [(''a'', ''1''), (''a'', ''2'')],
      attributes = Set_of attributeHash64 [(''a'', ''1''), (''a'', ''3'')],
      skip_attributes = [], select_attributes = [], set_error = None\<rparr>"

definition ownedData :: resource_data where
  "ownedData =
     \<lparr>ResourceId = ''cn=foo,dc=x'', dn = ''cn=foo,dc=x'',
      object_classes_state = [], object_classes = [],
      attributes_state = Set_of attributeHash64 [(''a'', ''1'')],
      attributes = Set_of attributeHash64 [(''a'', ''1'')],
      skip_attributes = [], select_attributes = [], set_error = None\<rparr>"

definition selectData :: resource_data where
  "selectData =
     \<lparr>ResourceId = ''cn=foo,dc=x'', dn = ''cn=foo,dc=x'',
      object_classes_state = [''person''], object_classes = [''person'', ''top''],
      attributes_state = Set_of attributeHash64 [(''objectClass'', ''x'')],
      attributes = Set_of attributeHash64 [(''objectClass'', ''y''), (''a'', ''1'')],
      skip_attributes = [], select_attributes = [''objectClass'', ''a'', ''sn''], set_error = None\<rparr>"

definition exampleEntry :: entry where
  "exampleEntry =
     \<lparr>DN = ''cn=foo,dc=x'',
      Attributes = [(''cn'', [''foo'']), (''objectClass'', [''top'', ''person'']), (''sn'', [''bar''])]\<rparr>"

definition oneEntry :: client where
  "oneEntry request = Inr [exampleEntry]"

definition noSuchObject :: client where
  "noSuchObject request = Inl (LdapError 32)"

section \<open>Properties of the set operations\<close>

lemma Set_Difference_self: "Set_Difference m m = []"
proof -
  have "\<And>k v. (k, v) \<in> set m \<Longrightarrow> map_of m k \<noteq> None"
    by (metis map_of_eq_None_iff fst_conv image_eqI)
  then show ?thesis
    unfolding Set_Difference_def by (auto simp: filter_empty_conv)
qed

lemma Set_Difference_Nil: "Set_Difference m [] = m" "Set_Difference [] m = []"
  "Set_Intersection m [] = []"
  by (simp_all add: Set_Difference_def Set_Intersection_def)

lemma Set_List_Nil: "Set_List [] = []"
  by (simp add: Set_List_def)

lemma set_Set_List: "set (Set_List m) = snd ` set m"
  by (simp add: Set_List_def)

lemma bound_iff: "map_of m k \<noteq> None \<longleftrightarrow> k \<in> fst ` set m"
  by (simp add: map_of_eq_None_iff)

lemma key_in_keys: "(a, b) \<in> set m \<Longrightarrow> a \<in> fst ` set m"
  by (metis fst_conv image_eqI)

lemma keys_Set_Intersection: "fst ` set (Set_Intersection m other) = fst ` set m \<inter> fst ` set other"
proof -
  have "set (Set_Intersection m other) = {x \<in> set m. fst x \<in> fst ` set other}"
    unfolding Set_Intersection_def bound_iff by (auto simp del: map_of_eq_None_iff intro: key_in_keys)
  then show ?thesis by auto
qed

lemma keys_Set_Union: "fst ` set (Set_Union m other) = fst ` set m \<union> fst ` set other"
proof -
  have "set (Set_Union m other) = {x \<in> set m. fst x \<notin> fst ` set other} \<union> set other"
    unfolding Set_Union_def map_of_eq_None_iff by (auto dest: key_in_keys)
  then show ?thesis by auto
qed


lemma items_Set_Add: "snd ` set (Set_Add F item m) \<subseteq> insert item (snd ` set m)"
  by (auto simp: Set_Add_def Let_def)


lemma items_fold_Set_Add:
  "snd ` set (fold (Set_Add F) items s) \<subseteq> snd ` set s \<union> set items"
proof (induction items arbitrary: s)
  case Nil
  then show ?case by simp
next
  case (Cons x xs)
  have "snd ` set (fold (Set_Add F) xs (Set_Add F x s)) \<subseteq> snd ` set (Set_Add F x s) \<union> set xs"
    by (rule Cons.IH)
  also have "\<dots> \<subseteq> insert x (snd ` set s) \<union> set xs"
    using items_Set_Add [of F x s] by blast
  finally show ?case by auto
qed


section \<open>Properties of the sets of names, the value lists and the filter\<close>

lemma attributeNames_Nil: "attributeNames [] = []"
  by (simp add: attributeNames_def util_NewSet_def)

lemma util_List_Nil: "util_List rank [] = []"
  by (simp add: util_List_def)

lemma set_util_Add: "set (util_Add k s) = insert k (set s)"
  by (auto simp: util_Add_def)

lemma distinct_util_Add: "distinct s \<Longrightarrow> distinct (util_Add k s)"
  by (simp add: util_Add_def)

lemma attributeNames_fold_set:
  "set (fold (\<lambda>(k, v) s. util_Add k s) items s) = set s \<union> fst ` set items"
  by (induction items arbitrary: s) (auto simp: set_util_Add)

lemma attributeNames_fold_distinct:
  "distinct s \<Longrightarrow> distinct (fold (\<lambda>(k, v) s. util_Add k s) items s)"
  by (induction items arbitrary: s) (auto simp: distinct_util_Add)

lemma set_attributeNames: "set (attributeNames items) = fst ` set items"
  by (simp add: attributeNames_def attributeNames_fold_set util_NewSet_def)

lemma distinct_attributeNames: "distinct (attributeNames items)"
  by (simp add: attributeNames_def attributeNames_fold_distinct util_NewSet_def)

lemma set_util_List: "set (util_List rank s) = set s"
  by (simp add: util_List_def)

lemma distinct_util_List: "distinct (util_List rank s) = distinct s"
  by (simp add: util_List_def)

lemma attributeValues_fold:
  "fold (\<lambda>(mk, mv) vals. if k = mk then vals @ [toAttributeValue utf16 k mv] else vals) items acc =
   acc @ map (toAttributeValue utf16 k) (map snd (filter (\<lambda>(mk, mv). mk = k) items))"
  by (induction items arbitrary: acc) auto

lemma attributeValues_eq:
  "attributeValues utf16 k items =
   map (toAttributeValue utf16 k) (map snd (filter (\<lambda>(mk, mv). mk = k) items))"
  by (simp add: attributeValues_def attributeValues_fold)

lemma attributeValues_nonempty:
  "k \<in> set (attributeNames items) \<Longrightarrow> attributeValues utf16 k items \<noteq> []"
  by (force simp: attributeValues_eq set_attributeNames filter_empty_conv)

lemma stringSliceContains_iff: "stringSliceContains haystack needle \<longleftrightarrow> needle \<in> set haystack"
  by (induction haystack) auto

lemma shouldSkipAttribute_iff:
  "shouldSkipAttribute sk sel k \<longleftrightarrow> (sel \<noteq> [] \<and> k \<notin> set sel) \<or> k \<in> set sk"
  by (auto simp: shouldSkipAttribute_def stringSliceContains_iff)

section \<open>Evaluation at the concrete inputs\<close>

text \<open>
  The unfolding rules that compute the sets, the diffs and the reads at concrete
  inputs, and the values of the operations at the resource data \<open>selectData\<close>.
\<close>

lemma quoted:
  "quote printable ''a'' = [CHR 0x22] @ ''a'' @ [CHR 0x22]"
  "quote printable ''1'' = [CHR 0x22] @ ''1'' @ [CHR 0x22]"
  "quote printable ''2'' = [CHR 0x22] @ ''2'' @ [CHR 0x22]"
  "quote printable ''3'' = [CHR 0x22] @ ''3'' @ [CHR 0x22]"
  "quote printable ''x'' = [CHR 0x22] @ ''x'' @ [CHR 0x22]"
  "quote printable ''y'' = [CHR 0x22] @ ''y'' @ [CHR 0x22]"
  "quote printable ''cn'' = [CHR 0x22] @ ''cn'' @ [CHR 0x22]"
  "quote printable ''sn'' = [CHR 0x22] @ ''sn'' @ [CHR 0x22]"
  "quote printable ''foo'' = [CHR 0x22] @ ''foo'' @ [CHR 0x22]"
  "quote printable ''bar'' = [CHR 0x22] @ ''bar'' @ [CHR 0x22]"
  "quote printable ''top'' = [CHR 0x22] @ ''top'' @ [CHR 0x22]"
  "quote printable ''person'' = [CHR 0x22] @ ''person'' @ [CHR 0x22]"
  "quote printable ''objectClass'' = [CHR 0x22] @ ''objectClass'' @ [CHR 0x22]"
  "quote printable ''unicodePwd'' = [CHR 0x22] @ ''unicodePwd'' @ [CHR 0x22]"
  by (simp_all add: quote_def appendEscapedRune_def IsPrint_def EncodeRune_def uint8_def RuneError_def)

lemma checksums:
  "ChecksumIEEE (attributeRendering printable (''a'', ''1'')) = 98384051"
  "ChecksumIEEE (attributeRendering printable (''a'', ''2'')) = 392730461"
  "ChecksumIEEE (attributeRendering printable (''a'', ''3'')) = 2949967928"
  "ChecksumIEEE (attributeRendering printable (''cn'', ''foo'')) = 2421855426"
  "ChecksumIEEE (attributeRendering printable (''objectClass'', ''top'')) = 940742889"
  "ChecksumIEEE (attributeRendering printable (''objectClass'', ''person'')) = 700589485"
  "ChecksumIEEE (attributeRendering printable (''sn'', ''bar'')) = 1882905499"
  "ChecksumIEEE (attributeRendering printable (''objectClass'', ''x'')) = 1606503461"
  "ChecksumIEEE (attributeRendering printable (''objectClass'', ''y'')) = 3883739968"
  "ChecksumIEEE (attributeRendering printable (''unicodePwd'', ''x'')) = 2862285752"
  by (simp_all add: attributeRendering_def quoted ChecksumIEEE_def crc32_update_def crc32_shift_def)

lemma hashes:
  "Set_hash attributeHash64 (''a'', ''1'') = ''98384051''"
  "Set_hash attributeHash64 (''a'', ''2'') = ''392730461''"
  "Set_hash attributeHash64 (''a'', ''3'') = ''2949967928''"
  "Set_hash attributeHash64 (''cn'', ''foo'') = ''2421855426''"
  "Set_hash attributeHash64 (''objectClass'', ''top'') = ''940742889''"
  "Set_hash attributeHash64 (''objectClass'', ''person'') = ''700589485''"
  "Set_hash attributeHash64 (''sn'', ''bar'') = ''1882905499''"
  "Set_hash attributeHash64 (''objectClass'', ''x'') = ''1606503461''"
  "Set_hash attributeHash64 (''objectClass'', ''y'') = ''3883739968''"
  "Set_hash attributeHash64 (''unicodePwd'', ''x'') = ''2862285752''"
  by (simp_all add: Set_hash_def attributeHash64_def attributeHash_def checksums int_of_uint32_def
      Let_def Itoa_def Itoa_nat.simps digit_def)

lemmas eval_set = Set_of_def Set_Add_def hashes
  Set_List_def Set_Difference_def Set_Intersection_def Set_Union_def

lemmas eval_diff = computeAndAddDeltas_def computeAndAddAttributeDeltas_def
        attributeNames_def util_List_def removedStep_def addedStep_def
        changedStep_def shouldSkipAttribute_def util_Contains_def util_Add_def util_NewSet_def
        ModifyRequest_Replace_def ModifyRequest_Add_def ModifyRequest_Delete_def
        attributeValues_def toAttributeValue_def

lemmas eval_read = readLDAPObject_def readAttributes_def readStep_def isRDN_def HasPrefix_def
  Set_attributes_def ldapAttributes_def ldapStep_def ldapAttributes_v0_def unionOfChange_def
  HasChange_attributes_def Set_Equal_def Set_Len_def Set_Contains_def

lemma exampleData_list: "Set_List (attributes exampleData) = [(''a'', ''3''), (''a'', ''1'')]"
  by (simp add: exampleData_def eval_set)

lemma exampleData_names: "fst ` snd ` set (attributes exampleData) = {''a''}"
  by (simp add: exampleData_def eval_set)

lemma selectData_sets: "attributes_state selectData = [(''1606503461'', (''objectClass'', ''x''))]"
  "attributes selectData = [(''3883739968'', (''objectClass'', ''y'')), (''98384051'', (''a'', ''1''))]"
  by (simp_all add: selectData_def eval_set)

lemma selectData_fields: "object_classes selectData = [''person'', ''top'']"
  "object_classes_state selectData = [''person'']"
  "skip_attributes selectData = []" "select_attributes selectData = [''objectClass'', ''a'', ''sn'']"
  "dn selectData = ''cn=foo,dc=x''" "ResourceId selectData = ''cn=foo,dc=x''"
  "set_error selectData = None"
  by (simp_all add: selectData_def)

lemma selectData_lists: "Set_List [(''3883739968'', (''objectClass'', ''y'')), (''98384051'', (''a'', ''1''))]
    = [(''objectClass'', ''y''), (''a'', ''1'')]"
  "Set_List [(''1606503461'', (''objectClass'', ''x''))] = [(''objectClass'', ''x'')]"
  by (simp_all add: Set_List_def)

lemma selectData_changed: "HasChange_attributes selectData"
  by (simp add: HasChange_attributes_def Set_Equal_def selectData_sets)

lemma selectData_differences:
  "Set_Difference [(''1606503461'', (''objectClass'', ''x''))] [(''3883739968'', (''objectClass'', ''y'')), (''98384051'', (''a'', ''1''))]
     = [(''1606503461'', (''objectClass'', ''x''))]"
  "Set_Difference [(''3883739968'', (''objectClass'', ''y'')), (''98384051'', (''a'', ''1''))] [(''1606503461'', (''objectClass'', ''x''))]
     = [(''3883739968'', (''objectClass'', ''y'')), (''98384051'', (''a'', ''1''))]"
  "Set_Intersection [(''3883739968'', (''objectClass'', ''y'')), (''98384051'', (''a'', ''1''))] [(''1606503461'', (''objectClass'', ''x''))]
     = []"
  by (simp_all add: Set_Difference_def Set_Intersection_def)

lemma selectData_names: "attributeNames [(''objectClass'', ''x'')] = [''objectClass'']"
  "attributeNames [(''objectClass'', ''y''), (''a'', ''1'')] = [''objectClass'', ''a'']"
  by (simp_all add: attributeNames_def util_Add_def util_NewSet_def)

lemma selectData_update_changes: "resourceLDAPObjectUpdate_changes insertionOrder utf16_ascii selectData
  = ([Change ReplaceAttribute ''objectClass'' [''person'', ''top''], Change AddAttribute ''a'' [''1'']], None)"
  by (simp add: resourceLDAPObjectUpdate_changes_def selectData_changed HasChange_object_classes_def selectData_sets selectData_fields
      computeAndAddDeltas_def selectData_differences selectData_lists selectData_names Set_List_Nil attributeNames_Nil
      util_NewSet_def util_List_def insertionOrder_def
      removedStep_def addedStep_def changedStep_def shouldSkipAttribute_def
      util_Contains_def util_Add_def ModifyRequest_Replace_def ModifyRequest_Add_def
      attributeValues_def toAttributeValue_def)

lemma selectData_create_attributes: "resourceLDAPObjectCreate_attributes insertionOrder utf16_ascii selectData
  = [(''objectClass'', [''person'', ''top'']), (''a'', [''1''])]"
  by (simp add: resourceLDAPObjectCreate_attributes_def selectData_sets selectData_fields selectData_lists createStep_def appendValue_def
      toAttributeValue_def insertionOrder_def)

lemma selectData_read: "readLDAPObject attributeHash64 oneEntry selectData True =
   ([SearchRequest ''cn=foo,dc=x'' ''(objectclass=*)'' [''*'']],
    selectData\<lparr>object_classes := [''top'', ''person''], attributes := Set_of attributeHash64 [(''sn'', ''bar'')]\<rparr>,
    Return None)"
  by (simp add: selectData_def oneEntry_def exampleEntry_def eval_read eval_set Let_def)

lemma selectData_update_sent: "fst (resourceLDAPObjectUpdate attributeHash64 insertionOrder utf16_ascii oneEntry selectData)
  = [ModifyRequest ''cn=foo,dc=x''
       [Change ReplaceAttribute ''objectClass'' [''person'', ''top''], Change AddAttribute ''a'' [''1'']],
     SearchRequest ''cn=foo,dc=x'' ''(objectclass=*)'' [''*'']]"
  by (simp add: resourceLDAPObjectUpdate_def selectData_update_changes selectData_fields resourceLDAPObjectRead_def selectData_read oneEntry_def)

lemma selectData_create_sent: "fst (resourceLDAPObjectCreate attributeHash64 insertionOrder utf16_ascii oneEntry selectData)
  = [AddRequest ''cn=foo,dc=x'' [(''objectClass'', [''person'', ''top'']), (''a'', [''1''])],
     SearchRequest ''cn=foo,dc=x'' ''(objectclass=*)'' [''*'']]"
proof -
  have e: "selectData\<lparr>ResourceId := ''cn=foo,dc=x''\<rparr> = selectData"
    by (simp add: selectData_def)
  show ?thesis
    by (simp add: resourceLDAPObjectCreate_def selectData_create_attributes selectData_fields resourceLDAPObjectRead_def e selectData_read Let_def
        oneEntry_def)
qed

section \<open>The full-ownership diff\<close>

lemma computeAndAddDeltas_folds:
  "computeAndAddDeltas ord utf16 modify os ns attributesToSkip attributesToSet =
     (let rk = attributeNames (Set_List (Set_Difference os ns));
          ak = attributeNames (Set_List (Set_Difference ns os));
          kk = attributeNames (Set_List (Set_Intersection ns os));
          st1 = fold (removedStep attributesToSkip attributesToSet ak kk)
                  (util_List (ord 0) rk) (modify, []);
          st2 = fold (addedStep utf16 attributesToSkip attributesToSet rk kk (Set_List ns))
                  (util_List (ord 1) ak) st1
      in (fold (changedStep utf16 attributesToSkip attributesToSet (Set_List ns))
            (util_List (ord 2) (snd st2)) (fst st2), None))"
  by (simp add: computeAndAddDeltas_def Let_def util_NewSet_def split: prod.splits)

lemma removed_fold_skipped:
  "shouldSkipAttribute sk sel k \<Longrightarrow>
   named k (fst (fold (removedStep sk sel ak kk) xs st)) = named k (fst st)"
proof (induction xs arbitrary: st)
  case Nil
  then show ?case by simp
next
  case (Cons x xs)
  obtain modify ck where st: "st = (modify, ck)" by (cases st)
  have "named k (fst (removedStep sk sel ak kk x st)) = named k (fst st)"
    using Cons.prems by (auto simp: st removedStep_def ModifyRequest_Delete_def named_def)
  with Cons show ?case by simp
qed

lemma added_fold_skipped:
  "shouldSkipAttribute sk sel k \<Longrightarrow>
   named k (fst (fold (addedStep utf16 sk sel rk kk nsl) xs st)) = named k (fst st)"
proof (induction xs arbitrary: st)
  case Nil
  then show ?case by simp
next
  case (Cons x xs)
  obtain modify ck where st: "st = (modify, ck)" by (cases st)
  have "named k (fst (addedStep utf16 sk sel rk kk nsl x st)) = named k (fst st)"
    using Cons.prems by (auto simp: st addedStep_def ModifyRequest_Add_def named_def)
  with Cons show ?case by simp
qed

lemma changed_fold_skipped:
  "shouldSkipAttribute sk sel k \<Longrightarrow>
   named k (fold (changedStep utf16 sk sel nsl) xs modify) = named k modify"
  by (induction xs arbitrary: modify)
     (auto simp: changedStep_def ModifyRequest_Replace_def named_def)

lemma computeAndAddDeltas_skipped:
  "shouldSkipAttribute sk sel k \<Longrightarrow>
   named k (fst (computeAndAddDeltas ord utf16 modify os ns sk sel)) = named k modify"
  by (simp add: computeAndAddDeltas_folds Let_def changed_fold_skipped added_fold_skipped
      removed_fold_skipped)

lemma added_fold_fresh:
  "fold (addedStep utf16 [] [] [] [] nsl) xs (modify, ck) =
   (modify @ map (\<lambda>k. Change AddAttribute k (attributeValues utf16 k nsl)) xs, ck)"
  by (induction xs arbitrary: modify)
     (simp_all add: addedStep_def shouldSkipAttribute_def util_Contains_def ModifyRequest_Add_def)

text \<open>
  C1. For every attribute set \<open>S\<close>, and whatever the modify request already
  holds, the full-ownership diff of \<open>S\<close> against itself (empty skip and select
  lists) and the partial-ownership diff of \<open>S\<close> against itself leave the modify
  request as it was: no Add, Replace or Delete is appended, and the error is nil.
\<close>

theorem diff_idempotent:
  "computeAndAddDeltas ord utf16 modify S S [] [] = (modify, None) \<and>
   computeAndAddAttributeDeltas ord utf16 modify S S = (modify, None)"
  by (simp add: computeAndAddDeltas_def computeAndAddAttributeDeltas_def
      Set_Difference_self Set_List_Nil attributeNames_Nil util_List_Nil util_NewSet_def)

text \<open>
  C8, as amended. For every attribute set \<open>S\<close>, the full-ownership diff from the
  empty set to \<open>S\<close> with empty filter lists yields Add changes only: one for
  each name of \<open>ks\<close>, a list without duplicates of exactly the names that occur
  in \<open>S\<close> (in the enumeration order of the set of names), and the Add for a
  name carries all values that \<open>S\<close> holds under that name, in the order of
  \<^verbatim>\<open>S.List()\<close>, each passed through \<open>toAttributeValue\<close> (the identity but for
  unicodePwd). No Delete and no Replace is part of the request.
\<close>

theorem additivity:
  "\<exists>ks. distinct ks \<and> set ks = fst ` snd ` set S \<and>
     computeAndAddDeltas ord utf16 [] [] S [] [] =
       (map (\<lambda>k. Change AddAttribute k
               (map (toAttributeValue utf16 k) (map snd (filter (\<lambda>(n, v). n = k) (Set_List S))))) ks,
        None)"
proof -
  let ?ks = "util_List (ord 1) (attributeNames (Set_List S))"
  have "distinct ?ks"
    by (simp add: distinct_util_List distinct_attributeNames)
  moreover have "set ?ks = fst ` snd ` set S"
    by (simp add: set_util_List set_attributeNames set_Set_List)
  moreover have "computeAndAddDeltas ord utf16 [] [] S [] [] =
       (map (\<lambda>k. Change AddAttribute k
               (map (toAttributeValue utf16 k) (map snd (filter (\<lambda>(n, v). n = k) (Set_List S))))) ?ks,
        None)"
    by (simp add: computeAndAddDeltas_folds Let_def Set_Difference_Nil Set_List_Nil
        attributeNames_Nil util_List_Nil added_fold_fresh attributeValues_eq)
  ultimately show ?thesis by blast
qed

text \<open>
  C8 as stated fails for the name unicodePwd: the Add carries the quoted value
  in UTF-16, not the value \<open>x\<close> that the set holds.
\<close>

theorem additivity_counterexample:
  "computeAndAddDeltas insertionOrder utf16_ascii [] []
      (Set_of attributeHash64 [(''unicodePwd'', ''x'')]) [] []
     = ([Change AddAttribute ''unicodePwd''
           [[CHR 0x22, CHR 0x00, CHR ''x'', CHR 0x00, CHR 0x22, CHR 0x00]]], None)
   \<and> computeAndAddDeltas insertionOrder utf16_ascii [] []
      (Set_of attributeHash64 [(''unicodePwd'', ''x'')]) [] []
     \<noteq> ([Change AddAttribute ''unicodePwd'' [''x'']], None)"
  by (simp add: eval_set eval_diff Encoder_String_def utf16_ascii_def)

text \<open>
  At the set \<open>{a:1, a:3}\<close>, which the provider's hash lists with 3 before 1,
  the request is the single change Add(a, [3, 1]).
\<close>

theorem additivity_witness:
  "computeAndAddDeltas insertionOrder utf16_ascii [] [] (attributes exampleData) [] []
     = ([Change AddAttribute ''a'' [''3'', ''1'']], None)"
proof -
  obtain ks where ks: "distinct ks" "set ks = fst ` snd ` set (attributes exampleData)"
    and r: "computeAndAddDeltas insertionOrder utf16_ascii [] [] (attributes exampleData) [] [] =
       (map (\<lambda>k. Change AddAttribute k
               (map (toAttributeValue utf16_ascii k)
                  (map snd (filter (\<lambda>(n, v). n = k) (Set_List (attributes exampleData)))))) ks,
        None)"
    using additivity [of "attributes exampleData" insertionOrder utf16_ascii] by blast
  have "set ks = {''a''}"
    using ks(2) by (simp only: exampleData_names)
  moreover from this ks(1) have "length ks = 1"
    using distinct_card [of ks] by simp
  ultimately have "ks = [''a'']"
    by (cases ks) auto
  with r show ?thesis
    by (simp add: exampleData_list toAttributeValue_def)
qed

text \<open>
  C7. A name on the deny list (whether or not it is also on the allow list), or
  a name missing from a non-empty allow list (whatever the deny list holds), is
  excluded: the changes for that name in the request after the diff are the
  ones the request held before, the diff appends none.
\<close>

theorem filter_precedence:
  "k \<in> set attributesToSkip \<or> (attributesToSet \<noteq> [] \<and> k \<notin> set attributesToSet) \<Longrightarrow>
   named k (fst (computeAndAddDeltas ord utf16 modify os ns attributesToSkip attributesToSet))
     = named k modify"
  using computeAndAddDeltas_skipped [of attributesToSkip attributesToSet k]
  by (auto simp: shouldSkipAttribute_iff)

text \<open>
  The attribute \<open>a\<close> changes from the values 1, 2 to the values 1, 3 and is on
  both lists: no change for \<open>a\<close> is emitted.
\<close>

theorem filter_precedence_witness:
  "''a'' \<in> set [''a''] \<and>
   named ''a'' (fst (computeAndAddDeltas insertionOrder utf16_ascii []
      (attributes_state exampleData) (attributes exampleData) [''a''] [''a''])) = []"
  using filter_precedence [of "''a''" "[''a'']" "[''a'']" insertionOrder utf16_ascii "[]"
      "attributes_state exampleData" "attributes exampleData"]
  by (simp add: named_def)

section \<open>The partial-ownership diff\<close>

lemma delete_fold:
  "fold (\<lambda>k modify. ModifyRequest_Delete modify k (f k)) xs modify =
   modify @ map (\<lambda>k. Change DeleteAttribute k (f k)) xs"
  by (induction xs arbitrary: modify) (simp_all add: ModifyRequest_Delete_def)

lemma add_fold:
  "fold (\<lambda>k modify. ModifyRequest_Add modify k (f k)) xs modify =
   modify @ map (\<lambda>k. Change AddAttribute k (f k)) xs"
  by (induction xs arbitrary: modify) (simp_all add: ModifyRequest_Add_def)

lemma computeAndAddAttributeDeltas_eq:
  "computeAndAddAttributeDeltas ord utf16 modify os ns =
     (modify
      @ map (\<lambda>k. Change DeleteAttribute k (attributeValues utf16 k (Set_List (Set_Difference os ns))))
          (util_List (ord 0) (attributeNames (Set_List (Set_Difference os ns))))
      @ map (\<lambda>k. Change AddAttribute k (attributeValues utf16 k (Set_List (Set_Difference ns os))))
          (util_List (ord 1) (attributeNames (Set_List (Set_Difference ns os)))),
      None)"
  by (simp add: computeAndAddAttributeDeltas_def Let_def delete_fold add_fold)

lemma partial_changes:
  assumes "c \<in> set (fst (computeAndAddAttributeDeltas ord utf16 [] os ns))"
  shows "Operation c \<noteq> ReplaceAttribute \<and> AttrVals c \<noteq> []"
proof -
  let ?ra = "Set_List (Set_Difference os ns)" and ?aa = "Set_List (Set_Difference ns os)"
  from assms consider
      k where "k \<in> set (attributeNames ?ra)" "c = Change DeleteAttribute k (attributeValues utf16 k ?ra)"
    | k where "k \<in> set (attributeNames ?aa)" "c = Change AddAttribute k (attributeValues utf16 k ?aa)"
    unfolding computeAndAddAttributeDeltas_eq by (auto simp: set_util_List)
  then show ?thesis
    by cases (simp_all add: attributeValues_nonempty)
qed




section \<open>Update and delete of ldap\_object\_attributes\<close>

text \<open>
  In the file that has \<^verbatim>\<open>computeAndAddAttributeDeltas\<close>, every change of every
  modify request that update or delete sends is an Add or a Delete with a
  non-empty list of values.
\<close>

lemma readLDAPObject_sent:
  "fst (readLDAPObject F client d u) = [SearchRequest (dn d) ''(objectclass=*)'' [''*'']]"
  by (simp add: readLDAPObject_def Let_def Set_attributes_def
      split: sum.splits error.splits list.splits option.splits)

lemma attributes_read_sent:
  "fst (resourceLDAPObjectAttributesRead F client d) = [SearchRequest (dn d) ''(objectclass=*)'' [''*'']]"
  by (simp add: resourceLDAPObjectAttributesRead_def Let_def Set_attributes_def
      split: sum.splits error.splits list.splits option.splits)

lemma partial_ownership_sends_no_replace:
  "(ModifyRequest b changes \<in> set (fst (resourceLDAPObjectAttributesUpdate F ord utf16 client d))
    \<or> ModifyRequest b changes \<in> set (fst (resourceLDAPObjectAttributesDelete ord utf16 client d)))
   \<Longrightarrow> c \<in> set changes \<Longrightarrow> Operation c \<noteq> ReplaceAttribute \<and> AttrVals c \<noteq> []"
proof -
  assume m: "ModifyRequest b changes \<in> set (fst (resourceLDAPObjectAttributesUpdate F ord utf16 client d))
    \<or> ModifyRequest b changes \<in> set (fst (resourceLDAPObjectAttributesDelete ord utf16 client d))"
    and c: "c \<in> set changes"
  obtain sent d' out where r: "resourceLDAPObjectAttributesRead F client d = (sent, d', out)"
    by (cases "resourceLDAPObjectAttributesRead F client d")
  have s: "sent = [SearchRequest (dn d) ''(objectclass=*)'' [''*'']]"
    using r attributes_read_sent [of F client d] by simp
  have u: "fst (resourceLDAPObjectAttributesUpdate F ord utf16 client d) = [] \<or>
      fst (resourceLDAPObjectAttributesUpdate F ord utf16 client d) = sent \<or>
      hd (fst (resourceLDAPObjectAttributesUpdate F ord utf16 client d))
        = ModifyRequest (dn d) (fst (resourceLDAPObjectAttributesUpdate_changes ord utf16 d))
      \<and> set (tl (fst (resourceLDAPObjectAttributesUpdate F ord utf16 client d))) \<subseteq> set sent
      \<and> fst (resourceLDAPObjectAttributesUpdate F ord utf16 client d) \<noteq> []"
    by (cases "resourceLDAPObjectAttributesUpdate_changes ord utf16 d")
       (simp add: resourceLDAPObjectAttributesUpdate_def r split: option.splits sum.splits)
  have dl: "fst (resourceLDAPObjectAttributesDelete ord utf16 client d) = [] \<or>
      fst (resourceLDAPObjectAttributesDelete ord utf16 client d)
        = [ModifyRequest (dn d) (fst (resourceLDAPObjectAttributesDelete_changes ord utf16 d))]"
    by (cases "resourceLDAPObjectAttributesDelete_changes ord utf16 d")
       (simp add: resourceLDAPObjectAttributesDelete_def split: option.splits sum.splits)
  have "changes = fst (resourceLDAPObjectAttributesUpdate_changes ord utf16 d)
      \<or> changes = fst (resourceLDAPObjectAttributesDelete_changes ord utf16 d)"
  proof (rule disjE [OF m])
    assume a: "ModifyRequest b changes \<in> set (fst (resourceLDAPObjectAttributesUpdate F ord utf16 client d))"
    then have "set (fst (resourceLDAPObjectAttributesUpdate F ord utf16 client d))
      = insert (hd (fst (resourceLDAPObjectAttributesUpdate F ord utf16 client d)))
          (set (tl (fst (resourceLDAPObjectAttributesUpdate F ord utf16 client d))))"
      by (cases "fst (resourceLDAPObjectAttributesUpdate F ord utf16 client d)") auto
    with a u s show ?thesis by auto
  next
    assume "ModifyRequest b changes \<in> set (fst (resourceLDAPObjectAttributesDelete ord utf16 client d))"
    with dl show ?thesis by auto
  qed
  then have "changes = fst (computeAndAddAttributeDeltas ord utf16 [] (attributes_state d) (attributes d))
      \<or> changes = [] \<or> changes = fst (computeAndAddAttributeDeltas ord utf16 [] (attributes d) [])"
    by (auto simp: resourceLDAPObjectAttributesUpdate_changes_def
        resourceLDAPObjectAttributesDelete_changes_def split: if_splits)
  with c show ?thesis
    using partial_changes [of c ord utf16] by auto
qed

text \<open>
  C3. In the second file, update and delete of the resource run the
  full-ownership diff with empty filter lists. With the owned values of \<open>a\<close>
  changing from 1, 2 to 1, 3, update sends a modify request with the single
  change Replace(a, [3, 1]); delete of the owned values 1, 3 sends
  Delete(a, []) with no list of values. In partial-ownership mode the claim
  admits only Delete and Add with the explicit removed or added values.
\<close>

theorem attributes_update_v0_replaces:
  "fst (resourceLDAPObjectAttributesUpdate_v0 attributeHash64 insertionOrder utf16_ascii oneEntry exampleData)
     = [ModifyRequest ''cn=foo,dc=x'' [Change ReplaceAttribute ''a'' [''3'', ''1'']],
        SearchRequest ''cn=foo,dc=x'' ''(objectclass=*)'' [''*'']]
   \<and> fst (resourceLDAPObjectAttributesDelete_v0 insertionOrder utf16_ascii oneEntry exampleData)
     = [ModifyRequest ''cn=foo,dc=x'' [Change DeleteAttribute ''a'' []]]"
proof -
  have u: "resourceLDAPObjectAttributesUpdate_changes_v0 insertionOrder utf16_ascii exampleData
     = ([Change ReplaceAttribute ''a'' [''3'', ''1'']], None)"
    and d: "resourceLDAPObjectAttributesDelete_changes_v0 insertionOrder utf16_ascii exampleData
     = ([Change DeleteAttribute ''a'' []], None)"
    by (simp_all add: resourceLDAPObjectAttributesUpdate_changes_v0_def
        resourceLDAPObjectAttributesDelete_changes_v0_def exampleData_def HasChange_attributes_def
        Set_Equal_def eval_set eval_diff)
  have n: "dn exampleData = ''cn=foo,dc=x''"
    by (simp add: exampleData_def)
  have r: "resourceLDAPObjectRead_v0 oneEntry exampleData
     = ([SearchRequest ''cn=foo,dc=x'' ''(objectclass=*)'' [''*'']],
        exampleData\<lparr>ResourceId := ''cn=foo,dc=x''\<rparr>, Panic)"
    by (simp add: resourceLDAPObjectRead_v0_def readLDAPObject_v0_def oneEntry_def n)
  show ?thesis
    by (simp add: resourceLDAPObjectAttributesUpdate_v0_def resourceLDAPObjectAttributesDelete_v0_def
        u d n r oneEntry_def)
qed

section \<open>Search errors\<close>

text \<open>
  C4. When the search fails with result code 32, \<open>resourceLDAPObjectExists\<close>
  returns false with a nil error, and \<open>readLDAPObject\<close> with \<open>updateState\<close>
  clears the id and returns nil; \<open>resourceLDAPObjectAttributesRead\<close> (in either
  file) clears the id but returns the error of the search, where the claim
  says it returns nil.
\<close>

theorem not_found_semantics:
  assumes "client (SearchRequest (dn d) ''(objectclass=*)'' [''*'']) = Inl (LdapError 32)"
      and "l (SearchRequest (dn d) ''(objectClass=*)'' []) = Inl (LdapError 32)"
  shows "resourceLDAPObjectExists l d = ([SearchRequest (dn d) ''(objectClass=*)'' []], False, None)
       \<and> readLDAPObject F client d True
           = ([SearchRequest (dn d) ''(objectclass=*)'' [''*'']], d\<lparr>ResourceId := []\<rparr>, Return None)
       \<and> resourceLDAPObjectAttributesRead F client d
           = ([SearchRequest (dn d) ''(objectclass=*)'' [''*'']], d\<lparr>ResourceId := []\<rparr>,
              Return (Some (LdapError 32)))
       \<and> resourceLDAPObjectAttributesRead_v0 F client d
           = ([SearchRequest (dn d) ''(objectclass=*)'' [''*'']], d\<lparr>ResourceId := []\<rparr>,
              Return (Some (LdapError 32)))"
  using assms
  by (simp add: resourceLDAPObjectExists_def readLDAPObject_def resourceLDAPObjectAttributesRead_def
      resourceLDAPObjectAttributesRead_v0_def)

text \<open>
  At the directory that answers every search with result code 32, the read of
  ldap\_object\_attributes returns that error.
\<close>

theorem not_found_semantics_witness:
  "resourceLDAPObjectAttributesRead attributeHash64 noSuchObject exampleData
     = ([SearchRequest ''cn=foo,dc=x'' ''(objectclass=*)'' [''*'']],
        exampleData\<lparr>ResourceId := []\<rparr>, Return (Some (LdapError 32)))"
  using not_found_semantics [of noSuchObject exampleData noSuchObject attributeHash64]
  by (simp add: noSuchObject_def exampleData_def)

section \<open>Read-back\<close>

lemma fold_values: "fold (\<lambda>v s. Set_Add F (n, v) s) vs s = fold (Set_Add F) (map (\<lambda>v. (n, v)) vs) s"
  by (simp add: fold_map comp_def)

lemma readStep_taken:
  "readStep F b sk sel a s =
     (if taken b sk sel a then fold (Set_Add F) (map (\<lambda>v. (fst a, v)) (snd a)) s else s)"
  by (auto simp: readStep_def taken_def shouldSkipAttribute_iff stringSliceContains_iff fold_values)


lemma read_fold: "fold (readStep F b sk sel) attrs s = fold (Set_Add F) (takenItems b sk sel attrs) s"
  by (induction attrs arbitrary: s) (simp_all add: takenItems_def readStep_taken)

lemma readAttributes_Set_of: "readAttributes F b sk sel attrs = Set_of F (takenItems b sk sel attrs)"
  by (simp add: readAttributes_def Set_of_def read_fold)

lemma in_takenItems:
  "(n, v) \<in> set (takenItems b sk sel attrs) \<longleftrightarrow>
     (\<exists>vs. (n, vs) \<in> set attrs \<and> taken b sk sel (n, vs) \<and> v \<in> set vs)"
  by (force simp: takenItems_def)



lemma readAttributes_sound:
  assumes "item \<in> snd ` set (readAttributes F b sk sel attrs)"
  shows "\<exists>vs. (fst item, vs) \<in> set attrs \<and> snd item \<in> set vs \<and> taken b sk sel (fst item, vs)"
proof -
  have "item \<in> set (takenItems b sk sel attrs)"
    using assms items_fold_Set_Add [of F "takenItems b sk sel attrs" "[]"]
    by (auto simp: readAttributes_Set_of Set_of_def)
  then show ?thesis
    using in_takenItems [of "fst item" "snd item" b sk sel attrs] by auto
qed





text \<open>
  In the file that has \<^verbatim>\<open>computeAndAddAttributeDeltas\<close>, a read that finds the
  entry stores the intersection of the union of the old and new sets (or of the
  configured set, when no change is pending) with the set built from the
  entry, and clears the id when that intersection is empty.
\<close>

lemma attributes_read_back:
  assumes "client (SearchRequest (dn d) ''(objectclass=*)'' [''*'']) = Inr (e # es)"
      and "set_error d = None"
  shows "resourceLDAPObjectAttributesRead F client d =
     (let s = Set_Intersection
                (if HasChange_attributes d then Set_Union (attributes_state d) (attributes d)
                 else attributes d)
                (ldapAttributes F (dn d) (Attributes e))
      in if s = [] then ([SearchRequest (dn d) ''(objectclass=*)'' [''*'']], d\<lparr>ResourceId := []\<rparr>, Return None)
         else ([SearchRequest (dn d) ''(objectclass=*)'' [''*'']],
               d\<lparr>attributes := s, ResourceId := dn d\<rparr>, Return None))"
  using assms
  by (simp add: resourceLDAPObjectAttributesRead_def Let_def Set_attributes_def Set_Len_def
      unionOfChange_def)

text \<open>
  C5. In the second file the read intersects the union with itself and never
  uses the set built from the entry. The resource owns the value 1 of \<open>a\<close>,
  no change is pending, and the entry has no attribute \<open>a\<close>: the intersection
  with the live set is empty, so by the claim the id is cleared; the read of
  the second file stores \<open>{a:1}\<close> and sets the id, while the read of the other
  file clears it.
\<close>

theorem attributes_read_v0_keeps_union:
  "Set_Intersection (unionOfChange ownedData)
      (ldapAttributes_v0 attributeHash64 (Attributes exampleEntry)) = []
   \<and> resourceLDAPObjectAttributesRead_v0 attributeHash64 oneEntry ownedData
       = ([SearchRequest ''cn=foo,dc=x'' ''(objectclass=*)'' [''*'']],
          ownedData\<lparr>attributes := Set_of attributeHash64 [(''a'', ''1'')], ResourceId := ''cn=foo,dc=x''\<rparr>,
          Return None)
   \<and> resourceLDAPObjectAttributesRead attributeHash64 oneEntry ownedData
       = ([SearchRequest ''cn=foo,dc=x'' ''(objectclass=*)'' [''*'']],
          ownedData\<lparr>ResourceId := []\<rparr>, Return None)"
  by (simp add: resourceLDAPObjectAttributesRead_v0_def resourceLDAPObjectAttributesRead_def
      ownedData_def exampleEntry_def oneEntry_def eval_read eval_set Let_def)

section \<open>Value codec\<close>

text \<open>
  On ASCII text the encoder of the provider writes every byte followed by a zero
  byte: there it is the transformer \<open>utf16_ascii\<close> of the concrete inputs.
\<close>

lemma uint8_of_char: "uint8 (of_char c) = c"
  by (cases c) (simp add: uint8_def)

lemma uint8_zero: "uint8 0 = CHR 0x00"
  by (simp add: uint8_def)

lemma of_char_bound: "(of_char c :: nat) < 256"
  by (cases c) simp

lemma utf16Encoder_rune_byte: "utf16Encoder_rune (of_char c) = [c, CHR 0x00]"
proof -
  have "(of_char c :: nat) \<le> 0xFFFF"
    using of_char_bound [of c] by linarith
  moreover have "(of_char c :: nat) div 256 = 0"
    using of_char_bound [of c] by simp
  ultimately show ?thesis
    by (simp add: utf16Encoder_rune_def uint8_of_char uint8_zero)
qed

lemma utf16Encoder_Transform_ascii:
  "list_all (\<lambda>c. (of_char c :: nat) < 0x80) s
   \<Longrightarrow> utf16Encoder_Transform s = concat (map (\<lambda>c. [c, CHR 0x00]) s)"
  by (induction s) (simp_all add: utf16Encoder_rune_byte)


lemma UTF16_LittleEndian_ascii:
  "list_all (\<lambda>c. (of_char c :: nat) < 0x80) s \<Longrightarrow> UTF16_LittleEndian s = utf16_ascii s"
  by (simp add: UTF16_LittleEndian_def utf16_ascii_def utf16Encoder_Transform_ascii)



section \<open>The attribute objectClass\<close>

lemma readLDAPObject_found:
  assumes "client (SearchRequest (dn d) ''(objectclass=*)'' [''*'']) = Inr (e # es)"
      and "set_error d = None"
  shows "attributes (fst (snd (readLDAPObject F client d u)))
           = readAttributes F (dn d) ([''objectClass''] @ skip_attributes d)
               (select_attributes d) (Attributes e)"
  using assms by (simp add: readLDAPObject_def Let_def Set_attributes_def)

lemma update_sent:
  assumes "ModifyRequest b changes \<in> set (fst (resourceLDAPObjectUpdate F ord utf16 client d))"
  shows "changes = fst (resourceLDAPObjectUpdate_changes ord utf16 d)"
proof -
  obtain modify err where c: "resourceLDAPObjectUpdate_changes ord utf16 d = (modify, err)"
    by (cases "resourceLDAPObjectUpdate_changes ord utf16 d")
  obtain sent d' out where r: "resourceLDAPObjectRead F client d = (sent, d', out)"
    by (cases "resourceLDAPObjectRead F client d")
  have s: "sent = [SearchRequest (dn d) ''(objectclass=*)'' [''*'']]"
    using r readLDAPObject_sent [of F client d True] by (simp add: resourceLDAPObjectRead_def)
  show ?thesis
    using assms c r s
    by (auto simp: resourceLDAPObjectUpdate_def split: option.splits if_splits sum.splits)
qed

lemma create_sent:
  assumes "AddRequest b attrs \<in> set (fst (resourceLDAPObjectCreate F ord utf16 client d))"
  shows "attrs = resourceLDAPObjectCreate_attributes ord utf16 d"
proof -
  obtain sent d' out where r:
    "resourceLDAPObjectRead F client (d\<lparr>ResourceId := dn d\<rparr>) = (sent, d', out)"
    by (cases "resourceLDAPObjectRead F client (d\<lparr>ResourceId := dn d\<rparr>)")
  have s: "sent = [SearchRequest (dn d) ''(objectclass=*)'' [''*'']]"
    using r readLDAPObject_sent [of F client "d\<lparr>ResourceId := dn d\<rparr>" True]
    by (simp add: resourceLDAPObjectRead_def)
  show ?thesis
    using assms r s
    by (auto simp: resourceLDAPObjectCreate_def Let_def split: sum.splits)
qed

lemma objectClass_skipped: "shouldSkipAttribute (''objectClass'' # sk) sel ''objectClass''"
  by (simp add: shouldSkipAttribute_iff)

lemma update_changes_objectClass:
  "named ''objectClass'' (fst (resourceLDAPObjectUpdate_changes ord utf16 d)) =
     (if HasChange_object_classes d
      then [Change ReplaceAttribute ''objectClass'' (object_classes d)] else [])"
proof -
  have diff: "\<And>modify. named ''objectClass'' (fst (computeAndAddDeltas ord utf16 modify
        (attributes_state d) (attributes d) (''objectClass'' # skip_attributes d) (select_attributes d)))
      = named ''objectClass'' modify"
    by (rule computeAndAddDeltas_skipped [OF objectClass_skipped])
  have own: "named ''objectClass'' [Change ReplaceAttribute ''objectClass'' (object_classes d)]
      = [Change ReplaceAttribute ''objectClass'' (object_classes d)]"
    "named ''objectClass'' [] = []"
    by (simp_all add: named_def)
  show ?thesis
    by (simp add: resourceLDAPObjectUpdate_changes_def Let_def ModifyRequest_Replace_def diff own)
qed

lemma keys_appendValue: "fst ` set (appendValue name v m) = insert name (fst ` set m)"
  by (force simp: appendValue_def)

lemma create_fold_skipped:
  "k \<in> set sk \<Longrightarrow> k \<notin> fst ` set m \<Longrightarrow> k \<notin> fst ` set (fold (createStep utf16 sk sel) attrs m)"
proof (induction attrs arbitrary: m)
  case Nil
  then show ?case by simp
next
  case (Cons a attrs)
  have "k \<notin> fst ` set (createStep utf16 sk sel a m)"
    using Cons.prems
    by (cases a) (auto simp: createStep_def keys_appendValue stringSliceContains_iff)
  with Cons show ?case by simp
qed

lemma create_attributes_objectClass:
  "filter (\<lambda>(n, vs). n = ''objectClass'') (resourceLDAPObjectCreate_attributes ord utf16 d)
     = [(''objectClass'', object_classes d)]"
proof -
  have "''objectClass'' \<notin> fst ` set (fold
      (createStep utf16 ([''objectClass''] @ skip_attributes d) (select_attributes d))
      (Set_List (attributes d)) [])"
    by (rule create_fold_skipped) simp_all
  then have "\<forall>x \<in> set (fold
      (createStep utf16 ([''objectClass''] @ skip_attributes d) (select_attributes d))
      (Set_List (attributes d)) []). fst x \<noteq> ''objectClass''"
    by force
  then have "filter (\<lambda>(n, vs). n = ''objectClass'') (sort_key (\<lambda>(name, vals). ord 0 name) (fold
      (createStep utf16 ([''objectClass''] @ skip_attributes d) (select_attributes d))
      (Set_List (attributes d)) [])) = []"
    by (force simp: filter_empty_conv)
  then show ?thesis
    by (simp add: resourceLDAPObjectCreate_attributes_def Let_def)
qed

lemma readAttributes_objectClass:
  "''objectClass'' \<notin> fst ` snd ` set (readAttributes F b (''objectClass'' # sk) sel attrs)"
proof
  assume "''objectClass'' \<in> fst ` snd ` set (readAttributes F b (''objectClass'' # sk) sel attrs)"
  then obtain item where i: "item \<in> snd ` set (readAttributes F b (''objectClass'' # sk) sel attrs)"
    and n: "fst item = ''objectClass''" by force
  from readAttributes_sound [OF i] n objectClass_skipped [of sk sel]
  show False by (auto simp: taken_def)
qed

text \<open>
  C10. With objectClass put in front of the user's skip list, whatever the
  select list holds: the attribute diff appends no change for objectClass;
  in every modify request that update sends, the changes for objectClass are
  the one Replace with the object classes when these have changed, and none
  otherwise; in every add request that create sends, the only attribute named
  objectClass is the one holding the object classes; and a read that finds the
  entry stores an attribute set without any item named objectClass.
\<close>

theorem objectClass_denied:
  "named ''objectClass'' (fst (computeAndAddDeltas ord utf16 modify os ns ([''objectClass''] @ sk) sel))
     = named ''objectClass'' modify
   \<and> (\<forall>b changes. ModifyRequest b changes \<in> set (fst (resourceLDAPObjectUpdate F ord utf16 client d))
         \<longrightarrow> named ''objectClass'' changes =
              (if HasChange_object_classes d
               then [Change ReplaceAttribute ''objectClass'' (object_classes d)] else []))
   \<and> (\<forall>b attrs. AddRequest b attrs \<in> set (fst (resourceLDAPObjectCreate F ord utf16 client d))
         \<longrightarrow> filter (\<lambda>(n, vs). n = ''objectClass'') attrs = [(''objectClass'', object_classes d)])
   \<and> (\<forall>e es. client (SearchRequest (dn d) ''(objectclass=*)'' [''*'']) = Inr (e # es)
              \<and> set_error d = None
         \<longrightarrow> ''objectClass'' \<notin>
               fst ` snd ` set (attributes (fst (snd (readLDAPObject F client d updateState)))))"
proof (intro conjI allI impI)
  show "named ''objectClass'' (fst (computeAndAddDeltas ord utf16 modify os ns ([''objectClass''] @ sk) sel))
     = named ''objectClass'' modify"
    using computeAndAddDeltas_skipped [OF objectClass_skipped] by simp
next
  fix b changes
  assume "ModifyRequest b changes \<in> set (fst (resourceLDAPObjectUpdate F ord utf16 client d))"
  then have "changes = fst (resourceLDAPObjectUpdate_changes ord utf16 d)"
    by (rule update_sent)
  then show "named ''objectClass'' changes =
              (if HasChange_object_classes d
               then [Change ReplaceAttribute ''objectClass'' (object_classes d)] else [])"
    by (simp only: update_changes_objectClass)
next
  fix b attrs
  assume "AddRequest b attrs \<in> set (fst (resourceLDAPObjectCreate F ord utf16 client d))"
  then have "attrs = resourceLDAPObjectCreate_attributes ord utf16 d"
    by (rule create_sent)
  then show "filter (\<lambda>(n, vs). n = ''objectClass'') attrs = [(''objectClass'', object_classes d)]"
    by (simp only: create_attributes_objectClass)
next
  fix e es
  assume "client (SearchRequest (dn d) ''(objectclass=*)'' [''*'']) = Inr (e # es)
              \<and> set_error d = None"
  then show "''objectClass'' \<notin>
               fst ` snd ` set (attributes (fst (snd (readLDAPObject F client d updateState))))"
    using readAttributes_objectClass [of F "dn d" "skip_attributes d" "select_attributes d" "Attributes e"]
    by (simp add: readLDAPObject_found)
qed

text \<open>
  The resource data \<open>selectData\<close> names objectClass among its attributes and
  on its select list.
\<close>

theorem objectClass_denied_witness:
  "ModifyRequest ''cn=foo,dc=x''
      [Change ReplaceAttribute ''objectClass'' [''person'', ''top''], Change AddAttribute ''a'' [''1'']]
     \<in> set (fst (resourceLDAPObjectUpdate attributeHash64 insertionOrder utf16_ascii oneEntry selectData))
   \<and> named ''objectClass''
        [Change ReplaceAttribute ''objectClass'' [''person'', ''top''], Change AddAttribute ''a'' [''1'']]
      = [Change ReplaceAttribute ''objectClass'' [''person'', ''top'']]
   \<and> AddRequest ''cn=foo,dc=x'' [(''objectClass'', [''person'', ''top'']), (''a'', [''1''])]
     \<in> set (fst (resourceLDAPObjectCreate attributeHash64 insertionOrder utf16_ascii oneEntry selectData))
   \<and> attributes (fst (snd (readLDAPObject attributeHash64 oneEntry selectData True)))
      = Set_of attributeHash64 [(''sn'', ''bar'')]
   \<and> ''objectClass'' \<notin>
        fst ` snd ` set (attributes (fst (snd (readLDAPObject attributeHash64 oneEntry selectData True))))"
proof -
  note t = objectClass_denied [of insertionOrder utf16_ascii "[]" "[]" "[]" "[]" "[]"
      attributeHash64 oneEntry selectData True]
  have u: "ModifyRequest ''cn=foo,dc=x''
      [Change ReplaceAttribute ''objectClass'' [''person'', ''top''], Change AddAttribute ''a'' [''1'']]
     \<in> set (fst (resourceLDAPObjectUpdate attributeHash64 insertionOrder utf16_ascii oneEntry selectData))"
    by (simp add: selectData_update_sent)
  have c: "AddRequest ''cn=foo,dc=x'' [(''objectClass'', [''person'', ''top'']), (''a'', [''1''])]
     \<in> set (fst (resourceLDAPObjectCreate attributeHash64 insertionOrder utf16_ascii oneEntry selectData))"
    by (simp add: selectData_create_sent)
  have r: "attributes (fst (snd (readLDAPObject attributeHash64 oneEntry selectData True)))
      = Set_of attributeHash64 [(''sn'', ''bar'')]"
    by (simp add: selectData_read)
  have h: "HasChange_object_classes selectData"
    by (simp add: HasChange_object_classes_def selectData_fields)
  have s: "oneEntry (SearchRequest (dn selectData) ''(objectclass=*)'' [''*''])
      = Inr (exampleEntry # []) \<and> set_error selectData = None"
    by (simp add: oneEntry_def selectData_fields)
  from t have "named ''objectClass''
        [Change ReplaceAttribute ''objectClass'' [''person'', ''top''], Change AddAttribute ''a'' [''1'']]
      = (if HasChange_object_classes selectData
         then [Change ReplaceAttribute ''objectClass'' (object_classes selectData)] else [])"
    using u by blast
  then have n: "named ''objectClass''
        [Change ReplaceAttribute ''objectClass'' [''person'', ''top''], Change AddAttribute ''a'' [''1'']]
      = [Change ReplaceAttribute ''objectClass'' [''person'', ''top'']]"
    using h by (simp add: selectData_fields)
  from t s have o: "''objectClass'' \<notin>
        fst ` snd ` set (attributes (fst (snd (readLDAPObject attributeHash64 oneEntry selectData True))))"
    by blast
  from u n c r o show ?thesis by blast
qed

end
